theory Spec2Isabelle
  imports Complex_Main "HOL-Library.Word" "HOL-Library.AList"
begin

section \<open>Machine types and values\<close>

text \<open>
  Go's \<open>int64\<close>, \<open>int32\<close> and sarama's \<open>KError\<close> (an \<open>int16\<close>) are words: addition and
  subtraction wrap, \<open>sint\<close> reads the two's complement value that Go's comparisons use.
\<close>

type_synonym int64 = "64 word"
type_synonym int32 = "32 word"
type_synonym KError = "16 word"

definition ErrNoError :: KError where
  "ErrNoError = 0"

text \<open>
  A non-nil Go \<open>error\<close>. \<open>sarama.ErrAlreadyConnected\<close> is the one value the code compares
  against; every other error only carries its text.
\<close>

datatype error = ErrAlreadyConnected | ErrOther string

text \<open>
  A \<open>float64\<close> as far as the rate computation needs it: a finite value or one of the IEEE
  754 special values that a division produces. Finite values are exact rationals (the
  rounding of a quotient to the nearest double is not modelled); zero stands for \<open>+0\<close>,
  the only zero the code divides by (it comes from converting the integer 0).
\<close>

datatype float64 = Finite rat | PosInf | NegInf | NaN

definition float64_of_int64 :: "int64 \<Rightarrow> float64" where
  "float64_of_int64 x = Finite (of_int (sint x))"

text \<open>Go's \<open>/\<close> on \<open>float64\<close>: division by zero does not panic, it follows IEEE 754.\<close>

fun fdiv :: "float64 \<Rightarrow> float64 \<Rightarrow> float64" where
  "fdiv NaN _ = NaN"
| "fdiv _ NaN = NaN"
| "fdiv (Finite a) (Finite b) =
     (if b = 0 then (if a = 0 then NaN else if 0 < a then PosInf else NegInf)
      else Finite (a / b))"
| "fdiv (Finite a) PosInf = Finite 0"
| "fdiv (Finite a) NegInf = Finite 0"
| "fdiv PosInf (Finite b) = (if b < 0 then NegInf else PosInf)"
| "fdiv NegInf (Finite b) = (if b < 0 then PosInf else NegInf)"
| "fdiv PosInf PosInf = NaN"
| "fdiv PosInf NegInf = NaN"
| "fdiv NegInf PosInf = NaN"
| "fdiv NegInf NegInf = NaN"

section \<open>The metric sink and the log\<close>

text \<open>
  One constructor per metric descriptor, named as the descriptor variable is. The first
  argument is the sample's value, the others are its label values in the order of the
  call to \<open>MustNewConstMetric\<close>. A value that the code converts with \<open>float64(x)\<close> from an
  integer is kept as that integer; a partition label, formatted from the \<open>int32\<close>, is kept
  as the \<open>int32\<close>; the rate and drain-time labels of \<open>consumergroupLagSumRate\<close>, formatted
  from a \<open>float64\<close>, are kept as the \<open>float64\<close>, and its elapsed label as the \<open>int64\<close>.
\<close>

datatype sample =
    clusterBrokers nat
  | topicPartitions nat string
  | topicPartitionLeader int32 string int32
  | topicCurrentOffset int64 string int32
  | topicOldestOffset int64 string int32
  | topicPartitionReplicas nat string int32
  | topicPartitionInSyncReplicas nat string int32
  | topicPartitionUsesPreferredReplica nat string int32
  | topicUnderReplicatedPartition nat string int32
  | consumergroupLagZookeeper int64 string string int32
  | consumergroupMembers nat string
  | consumergroupCurrentOffset int64 string string int32
  | consumergroupLag int64 string string int32
  | consumergroupLagSumRate int64 string string float64 float64 int64
  | consumergroupCurrentOffsetSum int64 string string

text \<open>
  What a cycle produces, in program order: a sample sent on the metric channel, or a line
  written to the error log with \<open>glog.Errorf\<close> or \<open>glog.Errorln\<close> (its format string up
  to the first argument).
\<close>

datatype event = Metric sample | Errorf string

section \<open>Process-wide state\<close>

text \<open>
  The package-level variables \<open>lastOffset\<close>, \<open>topicOffset\<close>, \<open>lastScrape\<close> and \<open>start\<close>,
  and the exporter's \<open>nextMetadataRefresh\<close>. A Go map value is a reference to a map
  object, so the inner maps live in a store: \<open>heap\<close> takes the address of a map object to
  its contents, \<open>topicOffset\<close> is the address of the object made at program start, and
  \<open>lastOffset\<close> takes a group to the address it was last assigned (the outer map is
  referenced from one place only and is kept by value).
\<close>

type_synonym addr = nat

record globals =
  heap :: "addr \<Rightarrow> (string \<rightharpoonup> int64)"
  lastOffset :: "string \<rightharpoonup> addr"
  topicOffset :: addr
  lastScrape :: int64
  start :: bool
  nextMetadataRefresh :: int

text \<open>The state at program start: both maps made empty, \<open>start = true\<close>.\<close>

definition init_globals :: "int \<Rightarrow> globals" where
  "init_globals t0 =
     \<lparr>heap = (\<lambda>_. Map.empty), lastOffset = Map.empty, topicOffset = 0,
      lastScrape = 0, start = True, nextMetadataRefresh = t0\<rparr>"

text \<open>
  \<open>lastOffset[g][t]\<close>: indexing a missing key of the outer map gives a nil map, and
  indexing a nil map or a missing key gives the zero value.
\<close>

definition lastOffset_read :: "globals \<Rightarrow> string \<Rightarrow> string \<Rightarrow> int64" where
  "lastOffset_read s g t =
     (case lastOffset s g of
        None \<Rightarrow> 0
      | Some a \<Rightarrow> (case heap s a t of None \<Rightarrow> 0 | Some v \<Rightarrow> v))"

text \<open>
  Lines 680 to 683:
  \<^verbatim>\<open>topicOffset[topic] = currentOffsetSum; lastOffset[group.GroupId] = topicOffset\<close>.
  The first writes into the one map object, the second stores that object's address.
\<close>

definition store_offset :: "string \<Rightarrow> string \<Rightarrow> int64 \<Rightarrow> globals \<Rightarrow> globals" where
  "store_offset g t currentOffsetSum s =
     (let s1 = s\<lparr>heap := (heap s)(topicOffset s := (heap s (topicOffset s))(t \<mapsto> currentOffsetSum))\<rparr>
      in s1\<lparr>lastOffset := (lastOffset s1)(g \<mapsto> topicOffset s1)\<rparr>)"

section \<open>The rate computation\<close>

text \<open>
  Lines 663 to 679. The result is \<open>(consumeRate, consumeTime)\<close>; \<open>consume\<close> is the signed
  difference to the stored value.
\<close>

definition consume_rate :: "bool \<Rightarrow> int64 \<Rightarrow> int64 \<Rightarrow> int64 \<Rightarrow> float64 \<times> float64" where
  "consume_rate start_flag currentOffsetSum stored timeDiff =
     (if \<not> start_flag then
        (let consume = currentOffsetSum - stored in
         if sint consume \<le> 0 then (Finite 0, Finite (- 1))
         else
           (let consumeRate = fdiv (float64_of_int64 consume) (float64_of_int64 timeDiff)
            in (consumeRate, fdiv (float64_of_int64 currentOffsetSum) consumeRate)))
      else (Finite (- 1), Finite (- 2)))"

section \<open>The cluster gateway\<close>

text \<open>
  The sarama client, its brokers and the ZooKeeper client are outside the repository; the
  model takes their answers as data. A call that returns a pointer or a slice together
  with an error is a sum: \<open>Inl\<close> the error (the value is then nil, as sarama returns it),
  \<open>Inr\<close> the value. \<open>GetOffset\<close> returns an \<open>int64\<close>, which has no nil, so it gives the
  value and the error side by side, as Go does.

  The client is a live connection: the log end of a partition moves while a cycle runs.
  \<open>GetOffset\<close> is called at two places in a cycle, in the topic walk (line 415 and 428) and
  in the consumer-group scan (line 641), and its first argument says which.
\<close>

datatype OffsetTime = OffsetNewest | OffsetOldest

datatype call_phase = TopicWalk | GroupScan

record OffsetFetchResponseBlock =
  Offset :: int64
  Err :: KError

record GroupMemberDescription =
  GetMemberAssignment :: "error + (string \<times> int32 list) list"

record GroupDescription =
  GroupId :: string
  Members :: "GroupMemberDescription list"

text \<open>
  A Go map that the code only ranges over is an association list, in the order the range
  visits it. The request of \<open>FetchOffset\<close> is the group and the list of
  \<open>(topic, partition)\<close> pairs added with \<open>AddPartition\<close>.
\<close>

type_synonym OffsetFetchBlocks = "(string \<times> (int32 \<times> OffsetFetchResponseBlock) list) list"

record Broker =
  ID :: int32
  Open :: "error option"
  ListGroups :: "error + string list"
  DescribeGroups :: "string list \<Rightarrow> error + GroupDescription list"
  FetchOffset :: "string \<Rightarrow> (string \<times> int32) list \<Rightarrow> error + OffsetFetchBlocks"

record Client =
  Brokers :: "Broker list"
  RefreshMetadata :: "error option"
  Topics :: "error + string list"
  Partitions :: "string \<Rightarrow> error + int32 list"
  Leader :: "string \<Rightarrow> int32 \<Rightarrow> error + int32"
  GetOffset :: "call_phase \<Rightarrow> string \<Rightarrow> int32 \<Rightarrow> OffsetTime \<Rightarrow> int64 \<times> error option"
  Replicas :: "string \<Rightarrow> int32 \<Rightarrow> error + int32 list"
  InSyncReplicas :: "string \<Rightarrow> int32 \<Rightarrow> error + int32 list"

record Consumergroup =
  Name :: string
  FetchOffsetZk :: "string \<Rightarrow> int32 \<Rightarrow> int64"

record Kazoo =
  Consumergroups :: "Consumergroup list \<times> error option"

text \<open>
  The fields of \<open>Exporter\<close> that \<open>collect\<close> reads. A compiled regular expression is the
  predicate \<open>MatchString\<close> computes.
\<close>

record Exporter =
  client :: Client
  topicFilter :: "string \<Rightarrow> bool"
  groupFilter :: "string \<Rightarrow> bool"
  useZooKeeperLag :: bool
  zookeeperClient :: Kazoo
  metadataRefreshInterval :: int
  offsetShowAll :: bool
  topicWorkers :: int

text \<open>
  The readings of the wall clock in one cycle: \<open>time.Now()\<close> at line 363,
  \<open>time.Now().Unix()\<close> at line 538 in the scan of the broker with the given ID, and at
  line 711.
\<close>

record Clock =
  now :: int
  scanUnix :: "int32 \<Rightarrow> int64"
  endUnix :: int64

section \<open>The consumer-group scan\<close>

text \<open>
  Lines 626 to 658, one pass of the loop over the partitions of a topic in the
  offset-fetch response: the new \<open>currentOffsetSum\<close>, the new \<open>lagSum\<close> and what is
  emitted.
\<close>

definition partitionBody ::
  "Client \<Rightarrow> string \<Rightarrow> string \<Rightarrow> int32 \<Rightarrow> OffsetFetchResponseBlock \<Rightarrow> int64 \<Rightarrow> int64
   \<Rightarrow> int64 \<times> int64 \<times> event list" where
  "partitionBody c g topic part blk currentOffsetSum lagSum =
     (if Err blk \<noteq> ErrNoError then
        (currentOffsetSum, lagSum, [Errorf ''Error for  partition''])
      else
        (let currentOffsetSum1 =
               (if Offset blk \<noteq> - 1 then currentOffsetSum + Offset blk else currentOffsetSum);
             currentOffset = fst (GetOffset c GroupScan topic part OffsetNewest);
             err = snd (GetOffset c GroupScan topic part OffsetNewest);
             lag = (if Offset blk = - 1 then - 1 else currentOffset - Offset blk);
             lagSum1 = (if Offset blk = - 1 then lagSum else lagSum + lag)
         in (currentOffsetSum1, lagSum1,
             [Metric (consumergroupCurrentOffset (Offset blk) g topic part)]
             @ (case err of None \<Rightarrow> [] | Some _ \<Rightarrow> [Errorf ''Cannot get current offset of topic''])
             @ [Metric (consumergroupLag lag g topic part)])))"

fun partitionLoop ::
  "Client \<Rightarrow> string \<Rightarrow> string \<Rightarrow> (int32 \<times> OffsetFetchResponseBlock) list \<Rightarrow> int64 \<Rightarrow> int64
   \<Rightarrow> int64 \<times> int64 \<times> event list" where
  "partitionLoop c g topic [] currentOffsetSum lagSum = (currentOffsetSum, lagSum, [])"
| "partitionLoop c g topic (pb # rest) currentOffsetSum lagSum =
     (case partitionBody c g topic (fst pb) (snd pb) currentOffsetSum lagSum of
        (currentOffsetSum1, lagSum1, evs1) \<Rightarrow>
          (case partitionLoop c g topic rest currentOffsetSum1 lagSum1 of
             (currentOffsetSum2, lagSum2, evs2) \<Rightarrow> (currentOffsetSum2, lagSum2, evs1 @ evs2)))"

text \<open>Lines 610 to 618: some partition of the topic has an offset other than \<open>-1\<close>.\<close>

definition topicConsumed :: "(int32 \<times> OffsetFetchResponseBlock) list \<Rightarrow> bool" where
  "topicConsumed partitions = list_ex (\<lambda>pb. Offset (snd pb) \<noteq> - 1) partitions"

text \<open>
  Lines 609 to 695, one pass of the loop over the topics of the response: the topic is
  skipped when it is not consumed; else its partitions are walked, the rate is computed
  against \<open>lastOffset[group][topic]\<close>, the sum is stored and the two aggregate samples
  are emitted.
\<close>

definition topicBody ::
  "Client \<Rightarrow> string \<Rightarrow> int64 \<Rightarrow> string \<Rightarrow> (int32 \<times> OffsetFetchResponseBlock) list \<Rightarrow> globals
   \<Rightarrow> event list \<times> globals" where
  "topicBody c g timeDiff topic partitions s =
     (if \<not> topicConsumed partitions then ([], s)
      else
        (case partitionLoop c g topic partitions 0 0 of
           (currentOffsetSum, lagSum, evs) \<Rightarrow>
             (case consume_rate (start s) currentOffsetSum (lastOffset_read s g topic) timeDiff of
                (consumeRate, consumeTime) \<Rightarrow>
                  (evs @
                   [Metric (consumergroupLagSumRate lagSum g topic consumeRate consumeTime timeDiff),
                    Metric (consumergroupCurrentOffsetSum currentOffsetSum g topic)],
                   store_offset g topic currentOffsetSum s))))"

fun topicLoop ::
  "Client \<Rightarrow> string \<Rightarrow> int64 \<Rightarrow> OffsetFetchBlocks \<Rightarrow> globals \<Rightarrow> event list \<times> globals" where
  "topicLoop c g timeDiff [] s = ([], s)"
| "topicLoop c g timeDiff (tp # rest) s =
     (case topicBody c g timeDiff (fst tp) (snd tp) s of
        (evs1, s1) \<Rightarrow>
          (case topicLoop c g timeDiff rest s1 of
             (evs2, s2) \<Rightarrow> (evs1 @ evs2, s2)))"

text \<open>
  Lines 577 to 597, the partitions put into the offset-fetch request. With
  \<open>offsetShowAll\<close> they are all partitions of all topics the walk recorded; otherwise the
  assignments of the members, and a member whose assignment cannot be read makes
  \<open>getConsumerGroupMetrics\<close> return (\<open>Inl\<close>).
\<close>

definition addPartitions :: "(string \<times> int32 list) list \<Rightarrow> (string \<times> int32) list" where
  "addPartitions tps = concat (map (\<lambda>tp. map (Pair (fst tp)) (snd tp)) tps)"

fun memberLoop ::
  "GroupMemberDescription list \<Rightarrow> (string \<times> int32) list \<Rightarrow> error + (string \<times> int32) list" where
  "memberLoop [] req = Inr req"
| "memberLoop (member # rest) req =
     (case GetMemberAssignment member of
        Inl err \<Rightarrow> Inl err
      | Inr topics \<Rightarrow> memberLoop rest (req @ addPartitions topics))"

definition fetchRequest ::
  "Exporter \<Rightarrow> (string \<times> int32 list) list \<Rightarrow> GroupDescription \<Rightarrow> error + (string \<times> int32) list" where
  "fetchRequest e topicsPartitions grp =
     (if offsetShowAll e then Inr (addPartitions topicsPartitions)
      else memberLoop (Members grp) [])"

datatype flow = Next | Return

text \<open>Lines 575 to 696, one pass of the loop over the described groups.\<close>

definition groupBody ::
  "Exporter \<Rightarrow> Broker \<Rightarrow> int64 \<Rightarrow> (string \<times> int32 list) list \<Rightarrow> GroupDescription \<Rightarrow> globals
   \<Rightarrow> flow \<times> event list \<times> globals" where
  "groupBody e broker timeDiff topicsPartitions grp s =
     (case fetchRequest e topicsPartitions grp of
        Inl err \<Rightarrow> (Return, [Errorf ''Cannot get GetMemberAssignment of group member''], s)
      | Inr req \<Rightarrow>
          (case FetchOffset broker (GroupId grp) req of
             Inl err \<Rightarrow>
               (Next,
                [Metric (consumergroupMembers (length (Members grp)) (GroupId grp)),
                 Errorf ''Cannot get offset of group''], s)
           | Inr blocks \<Rightarrow>
               (case topicLoop (client e) (GroupId grp) timeDiff blocks s of
                  (evs, s1) \<Rightarrow>
                    (Next,
                     Metric (consumergroupMembers (length (Members grp)) (GroupId grp)) # evs,
                     s1))))"

fun groupLoop ::
  "Exporter \<Rightarrow> Broker \<Rightarrow> int64 \<Rightarrow> (string \<times> int32 list) list \<Rightarrow> GroupDescription list \<Rightarrow> globals
   \<Rightarrow> event list \<times> globals" where
  "groupLoop e broker timeDiff topicsPartitions [] s = ([], s)"
| "groupLoop e broker timeDiff topicsPartitions (grp # rest) s =
     (case groupBody e broker timeDiff topicsPartitions grp s of
        (Return, evs1, s1) \<Rightarrow> (evs1, s1)
      | (Next, evs1, s1) \<Rightarrow>
          (case groupLoop e broker timeDiff topicsPartitions rest s1 of
             (evs2, s2) \<Rightarrow> (evs1 @ evs2, s2)))"

text \<open>Lines 533 to 699, the closure run for one broker.\<close>

definition getConsumerGroupMetrics ::
  "Exporter \<Rightarrow> Clock \<Rightarrow> (string \<times> int32 list) list \<Rightarrow> Broker \<Rightarrow> globals
   \<Rightarrow> event list \<times> globals" where
  "getConsumerGroupMetrics e clk topicsPartitions broker s =
     (let timeDiff = (if start s then 0 else scanUnix clk (ID broker) - lastScrape s) in
      if Open broker \<noteq> None \<and> Open broker \<noteq> Some ErrAlreadyConnected then
        ([Errorf ''Cannot connect to broker''], s)
      else
        (case ListGroups broker of
           Inl err \<Rightarrow> ([Errorf ''Cannot get consumer group''], s)
         | Inr groups \<Rightarrow>
             (case DescribeGroups broker (filter (groupFilter e) groups) of
                Inl err \<Rightarrow> ([Errorf ''Cannot get describe groups''], s)
              | Inr describeGroups \<Rightarrow> groupLoop e broker timeDiff topicsPartitions describeGroups s)))"

fun brokerLoop ::
  "Exporter \<Rightarrow> Clock \<Rightarrow> (string \<times> int32 list) list \<Rightarrow> Broker list \<Rightarrow> globals
   \<Rightarrow> event list \<times> globals" where
  "brokerLoop e clk topicsPartitions [] s = ([], s)"
| "brokerLoop e clk topicsPartitions (broker # rest) s =
     (case getConsumerGroupMetrics e clk topicsPartitions broker s of
        (evs1, s1) \<Rightarrow>
          (case brokerLoop e clk topicsPartitions rest s1 of
             (evs2, s2) \<Rightarrow> (evs1 @ evs2, s2)))"

section \<open>The topic walk\<close>

text \<open>
  The locals \<open>offset\<close> and \<open>topicsPartitions\<close> of \<open>collect\<close>, filled by the walk.
  \<open>offset\<close> is only ever indexed, so it is a map; \<open>topicsPartitions\<close> is ranged over by
  the scan, so it is an association list.
\<close>

record snapshot =
  offset :: "string \<rightharpoonup> (int32 \<rightharpoonup> int64)"
  topicsPartitions :: "(string \<times> int32 list) list"

text \<open>
  Lines 406 to 492, one pass of the loop over the partitions of a topic, fact by fact.
  Each fetch is followed by its own error check: the sample when the fetch succeeded,
  the log line when it failed.
\<close>

definition leaderFact :: "Client \<Rightarrow> string \<Rightarrow> int32 \<Rightarrow> event list" where
  "leaderFact c topic part =
     (case Leader c topic part of
        Inl _ \<Rightarrow> [Errorf ''Cannot get leader of topic'']
      | Inr b \<Rightarrow> [Metric (topicPartitionLeader b topic part)])"

definition currentOffsetFact :: "Client \<Rightarrow> string \<Rightarrow> int32 \<Rightarrow> event list" where
  "currentOffsetFact c topic part =
     (case snd (GetOffset c TopicWalk topic part OffsetNewest) of
        Some _ \<Rightarrow> [Errorf ''Cannot get current offset of topic'']
      | None \<Rightarrow>
          [Metric (topicCurrentOffset (fst (GetOffset c TopicWalk topic part OffsetNewest))
             topic part)])"

definition oldestOffsetFact :: "Client \<Rightarrow> string \<Rightarrow> int32 \<Rightarrow> event list" where
  "oldestOffsetFact c topic part =
     (case snd (GetOffset c TopicWalk topic part OffsetOldest) of
        Some _ \<Rightarrow> [Errorf ''Cannot get oldest offset of topic'']
      | None \<Rightarrow>
          [Metric (topicOldestOffset (fst (GetOffset c TopicWalk topic part OffsetOldest))
             topic part)])"

definition replicasFact :: "Client \<Rightarrow> string \<Rightarrow> int32 \<Rightarrow> event list" where
  "replicasFact c topic part =
     (case Replicas c topic part of
        Inl _ \<Rightarrow> [Errorf ''Cannot get replicas of topic'']
      | Inr rs \<Rightarrow> [Metric (topicPartitionReplicas (length rs) topic part)])"

definition inSyncReplicasFact :: "Client \<Rightarrow> string \<Rightarrow> int32 \<Rightarrow> event list" where
  "inSyncReplicasFact c topic part =
     (case InSyncReplicas c topic part of
        Inl _ \<Rightarrow> [Errorf ''Cannot get in-sync replicas of topic'']
      | Inr isr \<Rightarrow> [Metric (topicPartitionInSyncReplicas (length isr) topic part)])"

text \<open>
  Lines 455 to 473, the two derived samples, sent whatever failed: 1 when the partition
  has a leader and a non-empty replica list that starts with it, and 1 when both replica
  lists are known and fewer replicas are in sync; 0 otherwise.
\<close>

definition preferredReplicaFact :: "Client \<Rightarrow> string \<Rightarrow> int32 \<Rightarrow> event list" where
  "preferredReplicaFact c topic part =
     [Metric (topicPartitionUsesPreferredReplica
        (case Leader c topic part of
           Inl _ \<Rightarrow> 0
         | Inr b \<Rightarrow>
             (case Replicas c topic part of
                Inl _ \<Rightarrow> 0
              | Inr rs \<Rightarrow> (case rs of [] \<Rightarrow> 0 | r # _ \<Rightarrow> if b = r then 1 else 0)))
        topic part)]"

definition underReplicatedFact :: "Client \<Rightarrow> string \<Rightarrow> int32 \<Rightarrow> event list" where
  "underReplicatedFact c topic part =
     [Metric (topicUnderReplicatedPartition
        (case Replicas c topic part of
           Inl _ \<Rightarrow> 0
         | Inr rs \<Rightarrow>
             (case InSyncReplicas c topic part of
                Inl _ \<Rightarrow> 0
              | Inr isr \<Rightarrow> if length isr < length rs then 1 else 0))
        topic part)]"

text \<open>
  Lines 475 to 492. The ZooKeeper lag uses \<open>currentOffset\<close> whatever the error of its
  fetch was, and ignores the error of \<open>FetchOffset\<close>.
\<close>

definition zookeeperLag :: "Exporter \<Rightarrow> string \<Rightarrow> int32 \<Rightarrow> event list" where
  "zookeeperLag e topic part =
     (if useZooKeeperLag e then
        (case snd (Consumergroups (zookeeperClient e)) of
           Some _ \<Rightarrow> [Errorf ''Cannot get consumer group'']
         | None \<Rightarrow> [])
        @ concat (map (\<lambda>grp.
            if 0 < sint (FetchOffsetZk grp topic part) then
              [Metric (consumergroupLagZookeeper
                 (fst (GetOffset (client e) TopicWalk topic part OffsetNewest)
                  - FetchOffsetZk grp topic part)
                 (Name grp) topic part)]
            else [])
          (fst (Consumergroups (zookeeperClient e))))
      else [])"

text \<open>
  What the pass emits, in program order, and the entry written to \<open>offset[topic]\<close>
  (none when the newest offset could not be read).
\<close>

definition partitionFacts :: "Exporter \<Rightarrow> string \<Rightarrow> int32 \<Rightarrow> event list \<times> int64 option" where
  "partitionFacts e topic part =
     (leaderFact (client e) topic part
      @ currentOffsetFact (client e) topic part
      @ oldestOffsetFact (client e) topic part
      @ replicasFact (client e) topic part
      @ inSyncReplicasFact (client e) topic part
      @ preferredReplicaFact (client e) topic part
      @ underReplicatedFact (client e) topic part
      @ zookeeperLag e topic part,
      (case snd (GetOffset (client e) TopicWalk topic part OffsetNewest) of
         Some _ \<Rightarrow> None
       | None \<Rightarrow> Some (fst (GetOffset (client e) TopicWalk topic part OffsetNewest))))"

fun partitionsWalk ::
  "Exporter \<Rightarrow> string \<Rightarrow> int32 list \<Rightarrow> (int32 \<rightharpoonup> int64) \<Rightarrow> event list \<times> (int32 \<rightharpoonup> int64)" where
  "partitionsWalk e topic [] m = ([], m)"
| "partitionsWalk e topic (part # rest) m =
     (case partitionFacts e topic part of
        (evs1, entry) \<Rightarrow>
          (case partitionsWalk e topic rest
                  (case entry of None \<Rightarrow> m | Some v \<Rightarrow> m(part \<mapsto> v)) of
             (evs2, m2) \<Rightarrow> (evs1 @ evs2, m2)))"

text \<open>
  Lines 383 to 495. \<open>offset[topic]\<close> is made empty before the partitions are walked and
  filled by them; the model builds the inner map and stores it once.
\<close>

definition getTopicMetrics :: "Exporter \<Rightarrow> string \<Rightarrow> snapshot \<Rightarrow> event list \<times> snapshot" where
  "getTopicMetrics e topic snap =
     (if \<not> topicFilter e topic then ([], snap)
      else
        (case Partitions (client e) topic of
           Inl err \<Rightarrow> ([Errorf ''Cannot get partitions of topic''], snap)
         | Inr partitions \<Rightarrow>
             (case partitionsWalk e topic partitions Map.empty of
                (evs, m) \<Rightarrow>
                  (Metric (topicPartitions (length partitions) topic) # evs,
                   snap\<lparr>offset := (offset snap)(topic \<mapsto> m),
                        topicsPartitions := AList.update topic partitions (topicsPartitions snap)\<rparr>))))"

definition minx :: "int \<Rightarrow> int \<Rightarrow> int" where
  "minx x y = (if x < y then x else y)"

text \<open>
  Lines 518 to 531. \<open>topicChannel\<close> is unbuffered: the send at line 526 returns when a
  worker receives. The workers are the \<open>N\<close> goroutines started at lines 518 to 520, each
  receiving again after it has finished a topic (the gateway of the model always
  answers). So with \<open>1 \<le> N\<close> every send is received and its topic processed, and with
  \<open>N \<le> 0\<close> nothing ever receives and the first send never returns: the result is then
  \<open>None\<close>, and neither line 529 nor anything after it is reached. The workers' output is
  given in the order the topics were sent, one of the orders the concurrent workers can
  produce.
\<close>

fun sendTopics ::
  "Exporter \<Rightarrow> int \<Rightarrow> string list \<Rightarrow> snapshot \<Rightarrow> (event list \<times> snapshot) option" where
  "sendTopics e N [] snap = Some ([], snap)"
| "sendTopics e N (topic # rest) snap =
     (if topicFilter e topic then
        (if 1 \<le> N then
           (case getTopicMetrics e topic snap of
              (evs1, snap1) \<Rightarrow>
                (case sendTopics e N rest snap1 of
                   None \<Rightarrow> None
                 | Some (evs2, snap2) \<Rightarrow> Some (evs1 @ evs2, snap2)))
         else None)
      else sendTopics e N rest snap)"

text \<open>Lines 516 to 531: the pool size and the walk, from the empty locals of line 360.\<close>

definition topicWalk :: "Exporter \<Rightarrow> string list \<Rightarrow> (event list \<times> snapshot) option" where
  "topicWalk e topics =
     sendTopics e (minx (int (length topics) div 2) (topicWorkers e)) topics
       \<lparr>offset = Map.empty, topicsPartitions = []\<rparr>"

section \<open>One collection cycle\<close>

text \<open>
  Lines 365 to 373: the metadata is refreshed when the next refresh instant has passed;
  a failure is logged and nothing else. Then lines 348 to 713. The per-broker closures
  run concurrently in the code; the model runs them one after the other in the order of
  \<open>Brokers\<close>. \<open>None\<close> is a cycle that never returns.
\<close>

definition refreshMetadata :: "Exporter \<Rightarrow> Clock \<Rightarrow> globals \<Rightarrow> event list \<times> globals" where
  "refreshMetadata e clk s =
     (if nextMetadataRefresh s < now clk then
        ((case RefreshMetadata (client e) of
            Some _ \<Rightarrow> [Errorf ''Cannot refresh topics, using cached data'']
          | None \<Rightarrow> []),
         s\<lparr>nextMetadataRefresh := now clk + metadataRefreshInterval e\<rparr>)
      else ([], s))"

definition collect :: "Exporter \<Rightarrow> Clock \<Rightarrow> globals \<Rightarrow> (event list \<times> globals) option" where
  "collect e clk s =
     (let c = client e;
          evs0 = [Metric (clusterBrokers (length (Brokers c)))];
          refresh = fst (refreshMetadata e clk s);
          s0 = snd (refreshMetadata e clk s)
      in case Topics c of
           Inl err \<Rightarrow> Some (evs0 @ refresh @ [Errorf ''Cannot get topics''], s0)
         | Inr topics \<Rightarrow>
             (case topicWalk e topics of
                None \<Rightarrow> None
              | Some (evs1, snap) \<Rightarrow>
                  (case (if 0 < length (Brokers c)
                         then brokerLoop e clk (topicsPartitions snap) (Brokers c) s0
                         else ([Errorf ''No valid broker, cannot get consumer group metrics''], s0)) of
                     (evs2, s1) \<Rightarrow>
                       Some (evs0 @ refresh @ evs1 @ evs2,
                             s1\<lparr>lastScrape := endUnix clk, start := False\<rparr>))))"

text \<open>What a cycle sent and logged; nothing for a cycle that never returns.\<close>

definition cycle_events :: "Exporter \<Rightarrow> Clock \<Rightarrow> globals \<Rightarrow> event list" where
  "cycle_events e clk s = (case collect e clk s of None \<Rightarrow> [] | Some r \<Rightarrow> fst r)"

text \<open>The entry of \<open>offset[topic][part]\<close> once the walk over \<open>topics\<close> is done.\<close>

definition snapshot_lookup :: "Exporter \<Rightarrow> string list \<Rightarrow> string \<Rightarrow> int32 \<Rightarrow> int64 option" where
  "snapshot_lookup e topics topic part =
     (case topicWalk e topics of
        None \<Rightarrow> None
      | Some r \<Rightarrow> (case offset (snd r) topic of None \<Rightarrow> None | Some m \<Rightarrow> m part))"

text \<open>The process-wide state a cycle leaves; unchanged by a cycle that never returns.\<close>

definition cycle_state :: "Exporter \<Rightarrow> Clock \<Rightarrow> globals \<Rightarrow> globals" where
  "cycle_state e clk s = (case collect e clk s of None \<Rightarrow> s | Some r \<Rightarrow> snd r)"

text \<open>The \<open>consumergroupMembers\<close> samples among some events: value and group label.\<close>

definition members_samples :: "event list \<Rightarrow> (nat \<times> string) list" where
  "members_samples evs =
     concat (map (\<lambda>ev. case ev of Metric (consumergroupMembers n g) \<Rightarrow> [(n, g)] | _ \<Rightarrow> []) evs)"

text \<open>
  The rate and drain-time labels of a \<open>consumergroupLagSumRate\<close> sample are the values
  \<open>-1\<close> and \<open>-2\<close> that stand for ``not available'', with elapsed time 0; true of every
  other event.
\<close>

fun rate_unavailable :: "event \<Rightarrow> bool" where
  "rate_unavailable (Metric (consumergroupLagSumRate lagSum g topic rate eta elapsed)) =
     (rate = Finite (- 1) \<and> eta = Finite (- 2) \<and> elapsed = 0)"
| "rate_unavailable _ = True"

text \<open>
  The blocks of a topic that enter the sums: no request-level error and an offset other
  than \<open>-1\<close>. \<open>scanLag\<close> is the lag of a block against the newest offset the scan reads,
  and \<open>partitionEvents\<close> is what one pass of the partition loop emits (it does not
  depend on the running sums).
\<close>

definition committedBlocks ::
  "(int32 \<times> OffsetFetchResponseBlock) list \<Rightarrow> (int32 \<times> OffsetFetchResponseBlock) list" where
  "committedBlocks partitions =
     filter (\<lambda>pb. Err (snd pb) = ErrNoError \<and> Offset (snd pb) \<noteq> - 1) partitions"

definition scanLag :: "Client \<Rightarrow> string \<Rightarrow> int32 \<times> OffsetFetchResponseBlock \<Rightarrow> int64" where
  "scanLag c topic pb = fst (GetOffset c GroupScan topic (fst pb) OffsetNewest) - Offset (snd pb)"

definition partitionEvents ::
  "Client \<Rightarrow> string \<Rightarrow> string \<Rightarrow> int32 \<times> OffsetFetchResponseBlock \<Rightarrow> event list" where
  "partitionEvents c g topic pb = snd (snd (partitionBody c g topic (fst pb) (snd pb) 0 0))"

text \<open>
  What the scan sends for a consumed topic whatever the process-wide state is: the events
  of its partitions and the sum of the committed offsets. \<open>group_reported\<close> says that
  the events hold what is due for a group: its member count, the log line when its
  offsets could not be fetched, and otherwise those events of each consumed topic of the
  response. \<open>readable\<close> says that the request of the group can be built (no member
  assignment fails), and \<open>described\<close> gives the groups a broker describes, when it can be
  opened, lists its groups and describes them.
\<close>

definition topicStable ::
  "Client \<Rightarrow> string \<Rightarrow> string \<Rightarrow> (int32 \<times> OffsetFetchResponseBlock) list \<Rightarrow> event list" where
  "topicStable c g topic ps =
     concat (map (partitionEvents c g topic) ps)
     @ [Metric (consumergroupCurrentOffsetSum
          (sum_list (map (\<lambda>pb. Offset (snd pb)) (committedBlocks ps))) g topic)]"

definition group_reported ::
  "Exporter \<Rightarrow> Broker \<Rightarrow> (string \<times> int32 list) list \<Rightarrow> GroupDescription \<Rightarrow> event list \<Rightarrow> bool" where
  "group_reported e broker tps grp evs =
     (Metric (consumergroupMembers (length (Members grp)) (GroupId grp)) \<in> set evs
      \<and> (case fetchRequest e tps grp of
            Inl _ \<Rightarrow> True
          | Inr req \<Rightarrow>
              (case FetchOffset broker (GroupId grp) req of
                 Inl _ \<Rightarrow> Errorf ''Cannot get offset of group'' \<in> set evs
               | Inr blocks \<Rightarrow>
                   list_all (\<lambda>tp. topicConsumed (snd tp) \<longrightarrow>
                     set (topicStable (client e) (GroupId grp) (fst tp) (snd tp)) \<subseteq> set evs) blocks)))"

definition readable :: "Exporter \<Rightarrow> (string \<times> int32 list) list \<Rightarrow> GroupDescription \<Rightarrow> bool" where
  "readable e tps grp = (case fetchRequest e tps grp of Inl _ \<Rightarrow> False | Inr _ \<Rightarrow> True)"

definition described :: "Exporter \<Rightarrow> Broker \<Rightarrow> GroupDescription list option" where
  "described e broker =
     (if Open broker \<noteq> None \<and> Open broker \<noteq> Some ErrAlreadyConnected then None
      else
        (case ListGroups broker of
           Inl _ \<Rightarrow> None
         | Inr groups \<Rightarrow>
             (case DescribeGroups broker (filter (groupFilter e) groups) of
                Inl _ \<Rightarrow> None
              | Inr describeGroups \<Rightarrow> Some describeGroups)))"

text \<open>What the topic walk recorded and sent; nothing for a walk that never returns.\<close>

definition walkedPartitions :: "Exporter \<Rightarrow> string list \<Rightarrow> (string \<times> int32 list) list" where
  "walkedPartitions e topics =
     (case topicWalk e topics of None \<Rightarrow> [] | Some w \<Rightarrow> topicsPartitions (snd w))"

definition walkEvents :: "Exporter \<Rightarrow> string list \<Rightarrow> event list" where
  "walkEvents e topics = (case topicWalk e topics of None \<Rightarrow> [] | Some w \<Rightarrow> fst w)"

section \<open>A small cluster\<close>

text \<open>
  Two topics, \<open>t1\<close> with partitions 0, 1 and 2 and \<open>t2\<close> with partition 0, and one broker
  with the group \<open>g1\<close>, whose one member is assigned the partitions of \<open>t1\<close>. The log end
  of \<open>t1/0\<close> is 100 when the walk reads it and 150 when the scan does; the newest offset
  of \<open>t1/1\<close> cannot be read at all. The group has committed 40 on \<open>t1/0\<close> and \<open>t1/1\<close> and
  nothing on \<open>t1/2\<close>.
\<close>

definition blk :: "int64 \<Rightarrow> KError \<Rightarrow> OffsetFetchResponseBlock" where
  "blk off err = \<lparr>Offset = off, Err = err\<rparr>"

definition t1_blocks :: "(int32 \<times> OffsetFetchResponseBlock) list" where
  "t1_blocks = [(0, blk 40 0), (1, blk 40 0), (2, blk (- 1) 0)]"

definition member1 :: GroupMemberDescription where
  "member1 = \<lparr>GetMemberAssignment = Inr [(''t1'', [0, 1, 2])]\<rparr>"

definition group1 :: GroupDescription where
  "group1 = \<lparr>GroupId = ''g1'', Members = [member1]\<rparr>"

definition broker1 :: Broker where
  "broker1 =
     \<lparr>ID = 1, Open = None, ListGroups = Inr [''g1''],
      DescribeGroups = (\<lambda>ids. Inr [group1]),
      FetchOffset = (\<lambda>g req. Inr [(''t1'', t1_blocks)])\<rparr>"

definition getOffset1 :: "call_phase \<Rightarrow> string \<Rightarrow> int32 \<Rightarrow> OffsetTime \<Rightarrow> int64 \<times> error option" where
  "getOffset1 ph topic part tm =
     (if topic = ''t1'' \<and> part = 1 \<and> tm = OffsetNewest then (- 1, Some (ErrOther ''no leader''))
      else if tm = OffsetOldest then (0, None)
      else if topic = ''t1'' \<and> part = 0 \<and> ph = GroupScan then (150, None)
      else (100, None))"

definition client1 :: Client where
  "client1 =
     \<lparr>Brokers = [broker1], RefreshMetadata = None, Topics = Inr [''t1'', ''t2''],
      Partitions = (\<lambda>topic. if topic = ''t1'' then Inr [0, 1, 2] else Inr [0]),
      Leader = (\<lambda>topic part. Inr 1),
      GetOffset = getOffset1,
      Replicas = (\<lambda>topic part. Inr [1]),
      InSyncReplicas = (\<lambda>topic part. Inr [1])\<rparr>"

definition exporter1 :: Exporter where
  "exporter1 =
     \<lparr>client = client1, topicFilter = (\<lambda>_. True), groupFilter = (\<lambda>_. True),
      useZooKeeperLag = False, zookeeperClient = \<lparr>Consumergroups = ([], None)\<rparr>,
      metadataRefreshInterval = 30, offsetShowAll = False, topicWorkers = 100\<rparr>"

definition clock1 :: Clock where
  "clock1 = \<lparr>now = 1000, scanUnix = (\<lambda>_. 50), endUnix = 50\<rparr>"

text \<open>
  Variations of the small cluster. \<open>t2_exporter commits\<close> has one broker whose groups are
  those of \<open>commits\<close>, each with one member assigned \<open>t2/0\<close> and the given committed offset
  there (the log end of \<open>t2/0\<close> is 100). \<open>clock2\<close> is a cycle ten seconds after one on
  \<open>clock1\<close>, whose end is in the same second as its scan. \<open>one_topic_exporter\<close> knows the
  topic \<open>t1\<close> only. \<open>bad_member_exporter\<close> has a group \<open>g0\<close>, described before \<open>g1\<close>,
  whose member's assignment cannot be decoded. The client of \<open>no_topics_exporter\<close> fails
  to list the topics.
\<close>

definition member2 :: GroupMemberDescription where
  "member2 = \<lparr>GetMemberAssignment = Inr [(''t2'', [0])]\<rparr>"

definition t2_broker :: "(string \<times> int64) list \<Rightarrow> Broker" where
  "t2_broker commits =
     \<lparr>ID = 1, Open = None, ListGroups = Inr (map fst commits),
      DescribeGroups = (\<lambda>ids. Inr (map (\<lambda>id. \<lparr>GroupId = id, Members = [member2]\<rparr>) ids)),
      FetchOffset = (\<lambda>g req.
        case map_of commits g of
          None \<Rightarrow> Inl (ErrOther ''unknown group'')
        | Some off \<Rightarrow> Inr [(''t2'', [(0, blk off 0)])])\<rparr>"

definition t2_exporter :: "(string \<times> int64) list \<Rightarrow> Exporter" where
  "t2_exporter commits = exporter1\<lparr>client := client1\<lparr>Brokers := [t2_broker commits]\<rparr>\<rparr>"

definition clock2 :: Clock where
  "clock2 = \<lparr>now = 1010, scanUnix = (\<lambda>_. 60), endUnix = 60\<rparr>"

definition one_topic_exporter :: Exporter where
  "one_topic_exporter = exporter1\<lparr>client := client1\<lparr>Topics := Inr [''t1'']\<rparr>\<rparr>"

definition member_bad :: GroupMemberDescription where
  "member_bad = \<lparr>GetMemberAssignment = Inl (ErrOther ''decode'')\<rparr>"

definition bad_member_exporter :: "bool \<Rightarrow> Exporter" where
  "bad_member_exporter showAll =
     exporter1\<lparr>offsetShowAll := showAll,
       client := client1\<lparr>Brokers :=
         [broker1\<lparr>ListGroups := Inr [''g0'', ''g1''],
            DescribeGroups := (\<lambda>ids. Inr [\<lparr>GroupId = ''g0'', Members = [member_bad]\<rparr>, group1])\<rparr>]\<rparr>\<rparr>"

definition no_topics_exporter :: Exporter where
  "no_topics_exporter = exporter1\<lparr>client := client1\<lparr>Topics := Inl (ErrOther ''client closed'')\<rparr>\<rparr>"

text \<open>
  In \<open>fetch_fail_exporter\<close> the metadata refresh fails, and the broker describes a group
  \<open>g0\<close> before \<open>g1\<close> whose committed offsets it fails to return.
\<close>

definition fetch_fail_exporter :: Exporter where
  "fetch_fail_exporter =
     exporter1\<lparr>client := client1\<lparr>RefreshMetadata := Some (ErrOther ''timeout''),
       Brokers :=
         [broker1\<lparr>ListGroups := Inr [''g0'', ''g1''],
            DescribeGroups := (\<lambda>ids. Inr [\<lparr>GroupId = ''g0'', Members = [member1]\<rparr>, group1]),
            FetchOffset := (\<lambda>g req.
              if g = ''g0'' then Inl (ErrOther ''timeout'') else Inr [(''t1'', t1_blocks)])\<rparr>]\<rparr>\<rparr>"

section \<open>The sums and samples of one topic\<close>

text \<open>
  The partition loop adds up the offsets, and the lags, of exactly the committed blocks,
  and emits the events of each block in turn.
\<close>

lemma partitionLoop_offsetSum:
  "fst (partitionLoop c g topic ps cs ls) = cs + sum_list (map (\<lambda>pb. Offset (snd pb)) (committedBlocks ps))"
  by (induction ps arbitrary: cs ls)
     (simp_all add: committedBlocks_def partitionBody_def Let_def case_prod_beta)

lemma partitionLoop_lagSum:
  "fst (snd (partitionLoop c g topic ps cs ls)) = ls + sum_list (map (scanLag c topic) (committedBlocks ps))"
  by (induction ps arbitrary: cs ls)
     (simp_all add: committedBlocks_def partitionBody_def scanLag_def Let_def case_prod_beta)

lemma partitionBody_events:
  "snd (snd (partitionBody c g topic (fst pb) (snd pb) cs ls)) = partitionEvents c g topic pb"
  by (simp add: partitionEvents_def partitionBody_def Let_def)

lemma partitionLoop_events:
  "snd (snd (partitionLoop c g topic ps cs ls)) = concat (map (partitionEvents c g topic) ps)"
  by (induction ps arbitrary: cs ls) (simp_all add: case_prod_beta partitionBody_events)

lemma topicBody_events:
  "topicConsumed ps \<Longrightarrow>
   fst (topicBody c g timeDiff topic ps s) =
     concat (map (partitionEvents c g topic) ps)
     @ [Metric (consumergroupLagSumRate (sum_list (map (scanLag c topic) (committedBlocks ps))) g topic
          (fst (consume_rate (start s) (sum_list (map (\<lambda>pb. Offset (snd pb)) (committedBlocks ps)))
                  (lastOffset_read s g topic) timeDiff))
          (snd (consume_rate (start s) (sum_list (map (\<lambda>pb. Offset (snd pb)) (committedBlocks ps)))
                  (lastOffset_read s g topic) timeDiff))
          timeDiff),
        Metric (consumergroupCurrentOffsetSum (sum_list (map (\<lambda>pb. Offset (snd pb)) (committedBlocks ps))) g topic)]"
  by (simp add: topicBody_def case_prod_beta partitionLoop_offsetSum partitionLoop_lagSum
        partitionLoop_events)

lemma partitionEvents_ok:
  "Err (snd pb) = ErrNoError \<Longrightarrow>
   Metric (consumergroupCurrentOffset (Offset (snd pb)) g topic (fst pb)) \<in> set (partitionEvents c g topic pb)
   \<and> Metric (consumergroupLag
        (if Offset (snd pb) = - 1 then - 1
         else fst (GetOffset c GroupScan topic (fst pb) OffsetNewest) - Offset (snd pb))
        g topic (fst pb)) \<in> set (partitionEvents c g topic pb)"
  by (simp add: partitionEvents_def partitionBody_def Let_def)

lemma partitionEvents_lag:
  "Metric (consumergroupLag v g' t' p') \<in> set (partitionEvents c g topic pb) \<Longrightarrow>
   Err (snd pb) = ErrNoError \<and> g' = g \<and> t' = topic \<and> p' = fst pb \<and>
   v = (if Offset (snd pb) = - 1 then - 1
        else fst (GetOffset c GroupScan topic (fst pb) OffsetNewest) - Offset (snd pb))"
  by (auto simp: partitionEvents_def partitionBody_def Let_def split: if_splits option.splits)


lemma topicBody_partition_events:
  "topicConsumed ps \<Longrightarrow> pb \<in> set ps \<Longrightarrow>
   set (partitionEvents c g topic pb) \<subseteq> set (fst (topicBody c g timeDiff topic ps s))"
  by (auto simp: topicBody_events)

lemma topicBody_lagSumRate:
  assumes "topicConsumed ps"
  shows "\<exists>rate eta. Metric (consumergroupLagSumRate
              (sum_list (map (scanLag c topic) (committedBlocks ps))) g topic rate eta timeDiff)
           \<in> set (fst (topicBody c g timeDiff topic ps s))"
proof -
  have "Metric (consumergroupLagSumRate (sum_list (map (scanLag c topic) (committedBlocks ps))) g topic
          (fst (consume_rate (start s) (sum_list (map (\<lambda>pb. Offset (snd pb)) (committedBlocks ps)))
                  (lastOffset_read s g topic) timeDiff))
          (snd (consume_rate (start s) (sum_list (map (\<lambda>pb. Offset (snd pb)) (committedBlocks ps)))
                  (lastOffset_read s g topic) timeDiff))
          timeDiff) \<in> set (fst (topicBody c g timeDiff topic ps s))"
    by (simp add: topicBody_events [OF assms])
  then show ?thesis by blast
qed

lemma topicBody_offsetSum:
  assumes "topicConsumed ps"
  shows "Metric (consumergroupCurrentOffsetSum
              (sum_list (map (\<lambda>pb. Offset (snd pb)) (committedBlocks ps))) g topic)
           \<in> set (fst (topicBody c g timeDiff topic ps s))"
  by (simp add: topicBody_events [OF assms])

lemma minus_one_not_zero: "(- 1 :: int64) \<noteq> 0"
  by simp

text \<open>
  Claim C10. In a reported topic, every partition block without a request-level error gets
  a \<open>consumergroupCurrentOffset\<close> sample whose value is the block's offset, so \<open>-1\<close> when
  nothing is committed; a block with offset \<open>-1\<close> is not among the blocks summed; and the
  \<open>consumergroupCurrentOffsetSum\<close> sample and the lag sum of the
  \<open>consumergroupLagSumRate\<close> sample are the sums over exactly the blocks with no error
  and an offset other than \<open>-1\<close>.
\<close>

theorem uncommitted_offset_sample:
  assumes "topicConsumed ps" and "(p, b) \<in> set ps" and "Err b = ErrNoError"
  shows "Metric (consumergroupCurrentOffset (Offset b) g topic p)
           \<in> set (fst (topicBody c g timeDiff topic ps s))
         \<and> (Offset b = - 1 \<longrightarrow> (p, b) \<notin> set (committedBlocks ps))
         \<and> Metric (consumergroupCurrentOffsetSum
              (sum_list (map (\<lambda>pb. Offset (snd pb)) (committedBlocks ps))) g topic)
           \<in> set (fst (topicBody c g timeDiff topic ps s))
         \<and> (\<exists>rate eta. Metric (consumergroupLagSumRate
              (sum_list (map (scanLag c topic) (committedBlocks ps))) g topic rate eta timeDiff)
           \<in> set (fst (topicBody c g timeDiff topic ps s)))"
proof -
  have "Metric (consumergroupCurrentOffset (Offset b) g topic p) \<in> set (partitionEvents c g topic (p, b))"
    using partitionEvents_ok [of "(p, b)" g topic c] assms(3) by simp
  then have 1: "Metric (consumergroupCurrentOffset (Offset b) g topic p)
           \<in> set (fst (topicBody c g timeDiff topic ps s))"
    using topicBody_partition_events [OF assms(1) assms(2)] by blast
  have 2: "Offset b = - 1 \<longrightarrow> (p, b) \<notin> set (committedBlocks ps)"
    by (simp add: committedBlocks_def)
  show ?thesis
    using 1 2 topicBody_offsetSum [OF assms(1)] topicBody_lagSumRate [OF assms(1)] by blast
qed

theorem uncommitted_offset_sample_witness:
  "topicConsumed t1_blocks \<and> (2, blk (- 1) 0) \<in> set t1_blocks \<and> Err (blk (- 1) 0) = ErrNoError
   \<and> Metric (consumergroupCurrentOffset (- 1) ''g1'' ''t1'' 2)
       \<in> set (fst (topicBody client1 ''g1'' 0 ''t1'' t1_blocks (init_globals 0)))
   \<and> (2, blk (- 1) 0) \<notin> set (committedBlocks t1_blocks)
   \<and> sum_list (map (\<lambda>pb. Offset (snd pb)) (committedBlocks t1_blocks)) = 80"
proof -
  have h1: "topicConsumed t1_blocks"
    by (simp add: topicConsumed_def t1_blocks_def blk_def)
  have h2: "(2, blk (- 1) 0) \<in> set t1_blocks"
    by (simp add: t1_blocks_def)
  have h3: "Err (blk (- 1) 0) = ErrNoError"
    by (simp add: blk_def ErrNoError_def)
  have h4: "Offset (blk (- 1) 0) = - 1"
    by (simp add: blk_def)
  have h5: "sum_list (map (\<lambda>pb. Offset (snd pb)) (committedBlocks t1_blocks)) = 80"
    by (simp add: committedBlocks_def t1_blocks_def blk_def ErrNoError_def)
  show ?thesis
    using uncommitted_offset_sample [OF h1 h2 h3, of "''g1''" "''t1''" client1 0 "init_globals 0"]
      h1 h2 h3 h4 h5 by simp
qed

text \<open>
  Claim C8. In a reported topic, a partition block with offset \<open>-1\<close> and no request-level
  error gets the \<open>consumergroupLag\<close> sample \<open>-1\<close>; whatever lag sample the block emits is
  \<open>-1\<close>, which is not 0; and the block is not among those summed into the lag sum that
  the \<open>consumergroupLagSumRate\<close> sample carries.
\<close>

theorem uncommitted_lag_sentinel:
  assumes "topicConsumed ps" and "(p, b) \<in> set ps" and "Offset b = - 1"
  shows "(Err b = ErrNoError \<longrightarrow>
            Metric (consumergroupLag (- 1) g topic p) \<in> set (fst (topicBody c g timeDiff topic ps s)))
         \<and> (\<forall>v. Metric (consumergroupLag v g topic p) \<in> set (partitionEvents c g topic (p, b))
                \<longrightarrow> v = - 1 \<and> v \<noteq> 0)
         \<and> (p, b) \<notin> set (committedBlocks ps)
         \<and> (\<exists>rate eta. Metric (consumergroupLagSumRate
              (sum_list (map (scanLag c topic) (committedBlocks ps))) g topic rate eta timeDiff)
           \<in> set (fst (topicBody c g timeDiff topic ps s)))"
proof -
  have 1: "Err b = ErrNoError \<longrightarrow>
            Metric (consumergroupLag (- 1) g topic p) \<in> set (fst (topicBody c g timeDiff topic ps s))"
  proof
    assume e: "Err b = ErrNoError"
    have "Metric (consumergroupLag (- 1) g topic p) \<in> set (partitionEvents c g topic (p, b))"
      using partitionEvents_ok [of "(p, b)" g topic c] e assms(3) by simp
    then show "Metric (consumergroupLag (- 1) g topic p) \<in> set (fst (topicBody c g timeDiff topic ps s))"
      using topicBody_partition_events [OF assms(1) assms(2)] by blast
  qed
  have 2: "\<forall>v. Metric (consumergroupLag v g topic p) \<in> set (partitionEvents c g topic (p, b))
                \<longrightarrow> v = - 1 \<and> v \<noteq> 0"
  proof (intro allI impI)
    fix v
    assume "Metric (consumergroupLag v g topic p) \<in> set (partitionEvents c g topic (p, b))"
    then have "v = - 1"
      using partitionEvents_lag [of v g topic p c g topic "(p, b)"] assms(3) by simp
    then show "v = - 1 \<and> v \<noteq> 0"
      using minus_one_not_zero by simp
  qed
  have 3: "(p, b) \<notin> set (committedBlocks ps)"
    using assms(3) by (simp add: committedBlocks_def)
  show ?thesis
    using 1 2 3 topicBody_lagSumRate [OF assms(1)] by blast
qed

theorem uncommitted_lag_sentinel_witness:
  "topicConsumed t1_blocks \<and> (2, blk (- 1) 0) \<in> set t1_blocks \<and> Offset (blk (- 1) 0) = - 1
   \<and> Err (blk (- 1) 0) = ErrNoError
   \<and> Metric (consumergroupLag (- 1) ''g1'' ''t1'' 2)
       \<in> set (fst (topicBody client1 ''g1'' 0 ''t1'' t1_blocks (init_globals 0)))
   \<and> (2, blk (- 1) 0) \<notin> set (committedBlocks t1_blocks)
   \<and> sum_list (map (scanLag client1 ''t1'') (committedBlocks t1_blocks)) = 69"
proof -
  have h1: "topicConsumed t1_blocks"
    by (simp add: topicConsumed_def t1_blocks_def blk_def)
  have h2: "(2, blk (- 1) 0) \<in> set t1_blocks"
    by (simp add: t1_blocks_def)
  have h3: "Offset (blk (- 1) 0) = - 1"
    by (simp add: blk_def)
  have h4: "Err (blk (- 1) 0) = ErrNoError"
    by (simp add: blk_def ErrNoError_def)
  have h5: "sum_list (map (scanLag client1 ''t1'') (committedBlocks t1_blocks)) = 69"
    by (simp add: committedBlocks_def t1_blocks_def blk_def ErrNoError_def scanLag_def
          client1_def getOffset1_def)
  show ?thesis
    using uncommitted_lag_sentinel [OF h1 h2 h3, of "''g1''" "''t1''" client1 0 "init_globals 0"]
      h1 h2 h3 h4 h5 by simp
qed

text \<open>
  Claim C5, as amended. In a reported topic, for a partition block with no request-level
  error and a committed offset, when the scan's own query for the newest offset of the
  partition succeeds, the lag sample emitted is that newest offset minus the committed
  offset. The snapshot built by the topic walk is not consulted.
\<close>

theorem lag_from_scan_offset:
  assumes "topicConsumed ps" and "(p, b) \<in> set ps" and "Err b = ErrNoError"
    and "Offset b \<noteq> - 1" and "GetOffset c GroupScan topic p OffsetNewest = (latest, None)"
  shows "Metric (consumergroupLag (latest - Offset b) g topic p)
           \<in> set (fst (topicBody c g timeDiff topic ps s))
         \<and> (\<forall>v. Metric (consumergroupLag v g topic p) \<in> set (partitionEvents c g topic (p, b))
                \<longrightarrow> v = latest - Offset b)"
proof -
  have "Metric (consumergroupLag (latest - Offset b) g topic p) \<in> set (partitionEvents c g topic (p, b))"
    using partitionEvents_ok [of "(p, b)" g topic c] assms(3,4,5) by simp
  then have 1: "Metric (consumergroupLag (latest - Offset b) g topic p)
           \<in> set (fst (topicBody c g timeDiff topic ps s))"
    using topicBody_partition_events [OF assms(1) assms(2)] by blast
  have 2: "\<forall>v. Metric (consumergroupLag v g topic p) \<in> set (partitionEvents c g topic (p, b))
                \<longrightarrow> v = latest - Offset b"
    using partitionEvents_lag [of _ g topic p c g topic "(p, b)"] assms(4,5) by auto
  show ?thesis using 1 2 by simp
qed

theorem lag_from_scan_offset_witness:
  "topicConsumed t1_blocks \<and> (0, blk 40 0) \<in> set t1_blocks \<and> Err (blk 40 0) = ErrNoError
   \<and> Offset (blk 40 0) \<noteq> - 1 \<and> GetOffset client1 GroupScan ''t1'' 0 OffsetNewest = (150, None)
   \<and> Metric (consumergroupLag 110 ''g1'' ''t1'' 0)
       \<in> set (fst (topicBody client1 ''g1'' 0 ''t1'' t1_blocks (init_globals 0)))"
proof -
  have h1: "topicConsumed t1_blocks"
    by (simp add: topicConsumed_def t1_blocks_def blk_def)
  have h2: "(0, blk 40 0) \<in> set t1_blocks"
    by (simp add: t1_blocks_def)
  have h3: "Err (blk 40 0) = ErrNoError"
    by (simp add: blk_def ErrNoError_def)
  have h4: "Offset (blk 40 0) \<noteq> - 1"
    by (simp add: blk_def)
  have h5: "GetOffset client1 GroupScan ''t1'' 0 OffsetNewest = (150, None)"
    by (simp add: client1_def getOffset1_def)
  have h6: "Offset (blk 40 0) = 40"
    by (simp add: blk_def)
  show ?thesis
    using lag_from_scan_offset [OF h1 h2 h3 h4 h5, of "''g1''" 0 "init_globals 0"]
      h1 h2 h3 h4 h5 h6 by simp
qed

text \<open>
  Claim C5 as stated fails on the small cluster. The walk records 100 for \<open>t1/0\<close>, the
  group has committed 40, and the lag sample is 110, from the 150 the scan reads, not
  \<open>100 - 40\<close>. The walk records nothing for \<open>t1/1\<close>, whose newest offset cannot be read,
  and a lag sample is emitted all the same, from the \<open>-1\<close> that came with the error.
\<close>

theorem lag_from_snapshot_counterexample:
  "Topics (client exporter1) = Inr [''t1'', ''t2'']
   \<and> snapshot_lookup exporter1 [''t1'', ''t2''] ''t1'' 0 = Some 100
   \<and> FetchOffset broker1 ''g1'' [(''t1'', 0), (''t1'', 1), (''t1'', 2)] = Inr [(''t1'', t1_blocks)]
   \<and> Offset (snd (t1_blocks ! 0)) = 40
   \<and> Metric (consumergroupLag 110 ''g1'' ''t1'' 0) \<in> set (cycle_events exporter1 clock1 (init_globals 0))
   \<and> Metric (consumergroupLag (100 - 40) ''g1'' ''t1'' 0) \<notin> set (cycle_events exporter1 clock1 (init_globals 0))
   \<and> snapshot_lookup exporter1 [''t1'', ''t2''] ''t1'' 1 = None
   \<and> Offset (snd (t1_blocks ! 1)) = 40
   \<and> Metric (consumergroupLag (- 1 - 40) ''g1'' ''t1'' 1) \<in> set (cycle_events exporter1 clock1 (init_globals 0))"
  by code_simp



section \<open>Cycles on the small cluster\<close>

text \<open>
  Claim C1 does not hold of the code. Every group's entry of \<open>lastOffset\<close> is the address
  of the one map \<open>topicOffset\<close>, so a store for \<open>(g1, t2)\<close> overwrites what \<open>(g2, t2)\<close>
  reads. Group \<open>g2\<close> has committed 90 and \<open>g1\<close> 30 on \<open>t2\<close>; the first cycle reports 90
  for \<open>g2\<close> and leaves 30 as its stored value, and in the second cycle, with nothing
  consumed in between, \<open>g2\<close> is reported a rate of 6 per second over the 10 seconds.
\<close>

theorem aliased_baseline:
  "lastOffset_read (store_offset ''g2'' ''t2'' 90 (init_globals 0)) ''g2'' ''t2'' = 90
   \<and> lastOffset_read (store_offset ''g1'' ''t2'' 30 (store_offset ''g2'' ''t2'' 90 (init_globals 0)))
        ''g2'' ''t2'' = 30
   \<and> Metric (consumergroupCurrentOffsetSum 90 ''g2'' ''t2'')
        \<in> set (cycle_events (t2_exporter [(''g2'', 90), (''g1'', 30)]) clock1 (init_globals 0))
   \<and> lastOffset_read (cycle_state (t2_exporter [(''g2'', 90), (''g1'', 30)]) clock1 (init_globals 0))
        ''g2'' ''t2'' = 30
   \<and> Metric (consumergroupLagSumRate 10 ''g2'' ''t2'' (Finite 6) (Finite 15) 10)
        \<in> set (cycle_events (t2_exporter [(''g2'', 90), (''g1'', 30)]) clock2
                 (cycle_state (t2_exporter [(''g2'', 90), (''g1'', 30)]) clock1 (init_globals 0)))"
  by code_simp

text \<open>
  Claim C6 does not hold of the code when no whole second has passed since the last
  cycle ended: \<open>timeDiff\<close> is 0 and the division gives \<open>+Inf\<close>, which is put into the rate
  label, with 0 as drain time. Here \<open>g1\<close> has moved from 30 to 80 and the second cycle
  scans in the second in which the first ended.
\<close>

theorem zero_elapsed_rate:
  "consume_rate False 1500 1000 0 = (PosInf, Finite 0)
   \<and> lastScrape (cycle_state (t2_exporter [(''g1'', 30)]) clock1 (init_globals 0)) = scanUnix clock1 1
   \<and> Metric (consumergroupLagSumRate 20 ''g1'' ''t2'' PosInf (Finite 0) 0)
        \<in> set (cycle_events (t2_exporter [(''g1'', 80)]) clock1
                 (cycle_state (t2_exporter [(''g1'', 30)]) clock1 (init_globals 0)))"
  by code_simp

text \<open>Away from that case the computation is the one the specification gives.\<close>

lemma rate_example: "consume_rate False 1500 1000 50 = (Finite 10, Finite 150)"
  by code_simp

lemma rate_negative_delta: "consume_rate False 1200 1500 50 = (Finite 0, Finite (- 1))"
  by code_simp

text \<open>
  Claim C4 does not hold of the code when the pool is empty and a topic passes the
  filter. With the single topic \<open>t1\<close> the pool size is \<open>min (1 div 2) 100 = 0\<close>, the send
  of \<open>t1\<close> is never received, and the cycle never returns.
\<close>

theorem single_topic_blocks:
  "Topics (client one_topic_exporter) = Inr [''t1'']
   \<and> topicFilter one_topic_exporter ''t1''
   \<and> minx (int (length [''t1'']) div 2) (topicWorkers one_topic_exporter) = 0
   \<and> collect one_topic_exporter clock1 (init_globals 0) = None"
  by code_simp

text \<open>
  Claim C9 does not hold of the code in assigned-only mode: reading the assignment of the
  member of \<open>g0\<close> fails, the closure returns at line 589, and no member count is sent,
  neither for \<open>g0\<close> nor for \<open>g1\<close> after it. In show-all mode both are sent.
\<close>

theorem member_count_missing:
  "offsetShowAll (bad_member_exporter False) = False
   \<and> members_samples (cycle_events (bad_member_exporter False) clock1 (init_globals 0)) = []
   \<and> members_samples (cycle_events (bad_member_exporter True) clock1 (init_globals 0))
       = [(1, ''g0''), (1, ''g1'')]"
  by code_simp

text \<open>
  Claim C3 as stated fails when the topics cannot be listed: the cycle returns at line
  378 with the broker count alone and \<open>start\<close> still set, although the broker would have
  answered for the group \<open>g1\<close>, as it does in the cycle of \<open>exporter1\<close>.
\<close>

theorem topic_list_failure_aborts:
  "cycle_events no_topics_exporter clock1 (init_globals 0)
     = [Metric (clusterBrokers 1), Errorf ''Cannot get topics'']
   \<and> start (cycle_state no_topics_exporter clock1 (init_globals 0))
   \<and> Metric (consumergroupMembers 1 ''g1'') \<in> set (cycle_events exporter1 clock1 (init_globals 0))"
  by code_simp

section \<open>The first cycle\<close>

text \<open>
  With \<open>start\<close> set, each part of the scan leaves \<open>start\<close> set and sends rate samples
  with the two values for ``not available'' only; the walk sends no rate sample at all.
\<close>

lemma partitionEvents_unavailable: "list_all rate_unavailable (partitionEvents c g topic pb)"
  by (simp add: partitionEvents_def partitionBody_def Let_def split: option.splits)

lemma topicBody_start: "start (snd (topicBody c g timeDiff topic ps s)) = start s"
  by (simp add: topicBody_def store_offset_def Let_def case_prod_beta)

lemma topicBody_unavailable:
  assumes "start s"
  shows "list_all rate_unavailable (fst (topicBody c g 0 topic ps s))"
proof (cases "topicConsumed ps")
  case True
  then show ?thesis
    using assms
    by (simp add: topicBody_events consume_rate_def list_all_iff)
       (use partitionEvents_unavailable in \<open>auto simp: list_all_iff\<close>)
next
  case False
  then show ?thesis by (simp add: topicBody_def)
qed

lemma topicLoop_unavailable:
  "start s \<Longrightarrow> list_all rate_unavailable (fst (topicLoop c g 0 blocks s))
     \<and> start (snd (topicLoop c g 0 blocks s))"
proof (induction blocks arbitrary: s)
  case Nil
  then show ?case by simp
next
  case (Cons tp rest)
  have 1: "start (snd (topicBody c g 0 (fst tp) (snd tp) s))"
    using Cons.prems by (simp add: topicBody_start)
  show ?case
    using Cons.IH [OF 1] topicBody_unavailable [OF Cons.prems, of c g "fst tp" "snd tp"]
    by (simp add: case_prod_beta)
qed

lemma groupBody_unavailable:
  "start s \<Longrightarrow> list_all rate_unavailable (fst (snd (groupBody e broker 0 tps grp s)))
     \<and> start (snd (snd (groupBody e broker 0 tps grp s)))"
  using topicLoop_unavailable [of s "client e" "GroupId grp"]
  by (auto simp: groupBody_def case_prod_beta split: sum.splits)

lemma groupLoop_unavailable:
  "start s \<Longrightarrow> list_all rate_unavailable (fst (groupLoop e broker 0 tps groups s))
     \<and> start (snd (groupLoop e broker 0 tps groups s))"
proof (induction groups arbitrary: s)
  case Nil
  then show ?case by simp
next
  case (Cons grp rest)
  obtain f evs1 s1 where b: "groupBody e broker 0 tps grp s = (f, evs1, s1)"
    by (cases "groupBody e broker 0 tps grp s") auto
  have 1: "list_all rate_unavailable evs1 \<and> start s1"
    using groupBody_unavailable [OF Cons.prems, of e broker tps grp] b by simp
  show ?case
    using 1 Cons.IH [of s1] b by (cases f) (simp_all add: case_prod_beta)
qed

lemma getConsumerGroupMetrics_unavailable:
  "start s \<Longrightarrow> list_all rate_unavailable (fst (getConsumerGroupMetrics e clk tps broker s))
     \<and> start (snd (getConsumerGroupMetrics e clk tps broker s))"
  using groupLoop_unavailable [of s e broker tps]
  by (auto simp: getConsumerGroupMetrics_def Let_def split: sum.splits)

lemma brokerLoop_unavailable:
  "start s \<Longrightarrow> list_all rate_unavailable (fst (brokerLoop e clk tps brokers s))
     \<and> start (snd (brokerLoop e clk tps brokers s))"
proof (induction brokers arbitrary: s)
  case Nil
  then show ?case by simp
next
  case (Cons broker rest)
  have 1: "start (snd (getConsumerGroupMetrics e clk tps broker s))"
    using getConsumerGroupMetrics_unavailable [OF Cons.prems] by simp
  show ?case
    using Cons.IH [OF 1] getConsumerGroupMetrics_unavailable [OF Cons.prems, of e clk tps broker]
    by (simp add: case_prod_beta)
qed

lemma partitionFacts_unavailable: "list_all rate_unavailable (fst (partitionFacts e topic part))"
  by (auto simp: partitionFacts_def leaderFact_def currentOffsetFact_def oldestOffsetFact_def
        replicasFact_def inSyncReplicasFact_def preferredReplicaFact_def underReplicatedFact_def
        zookeeperLag_def list_all_iff split: sum.splits option.splits)

lemma partitionsWalk_unavailable: "list_all rate_unavailable (fst (partitionsWalk e topic ps m))"
  by (induction ps arbitrary: m)
     (simp_all add: case_prod_beta partitionFacts_unavailable)

lemma getTopicMetrics_unavailable: "list_all rate_unavailable (fst (getTopicMetrics e topic snap))"
  by (simp add: getTopicMetrics_def case_prod_beta partitionsWalk_unavailable split: sum.splits)

lemma sendTopics_unavailable:
  "sendTopics e N topics snap = Some r \<Longrightarrow> list_all rate_unavailable (fst r)"
proof (induction topics arbitrary: snap r)
  case Nil
  then show ?case by auto
next
  case (Cons topic rest)
  show ?case
  proof (cases "topicFilter e topic")
    case True
    with Cons.prems obtain r2 where
      r2: "sendTopics e N rest (snd (getTopicMetrics e topic snap)) = Some r2"
      and r: "fst r = fst (getTopicMetrics e topic snap) @ fst r2"
      by (auto simp: case_prod_beta split: if_splits option.splits)
    show ?thesis
      using Cons.IH [OF r2] r getTopicMetrics_unavailable [of e topic snap] by simp
  next
    case False
    with Cons.prems Cons.IH show ?thesis by simp
  qed
qed

text \<open>
  Claim C7. In a cycle that starts with \<open>start\<close> set (no cycle has completed since the
  process started), every \<open>consumergroupLagSumRate\<close> sample that the cycle sends, for
  whatever group and topic, has the rate label \<open>-1\<close> and the drain-time label \<open>-2\<close>;
  neither is 0.
\<close>

theorem first_cycle_rate_unavailable:
  assumes "start s" and "collect e clk s = Some (evs, s')"
    and "Metric (consumergroupLagSumRate lagSum g topic rate eta elapsed) \<in> set evs"
  shows "rate = Finite (- 1) \<and> eta = Finite (- 2) \<and> rate \<noteq> Finite 0 \<and> eta \<noteq> Finite 0"
proof -
  have "list_all rate_unavailable evs"
  proof (cases "Topics (client e)")
    case (Inl err)
    have "list_all rate_unavailable (fst (refreshMetadata e clk s))"
      by (simp add: refreshMetadata_def split: option.splits)
    with Inl assms(2) show ?thesis
      by (auto simp: collect_def Let_def)
  next
    case (Inr topics)
    with assms(2) obtain r where w: "topicWalk e topics = Some r"
      by (auto simp: collect_def Let_def split: option.splits)
    define s0 where "s0 = snd (refreshMetadata e clk s)"
    have s0: "start s0" using assms(1) by (simp add: s0_def refreshMetadata_def)
    have 1: "list_all rate_unavailable (fst r)"
      using w sendTopics_unavailable by (simp add: topicWalk_def)
    have 2: "list_all rate_unavailable
               (fst (brokerLoop e clk (topicsPartitions (snd r)) (Brokers (client e)) s0))"
      using brokerLoop_unavailable [OF s0] by simp
    have 3: "list_all rate_unavailable (fst (refreshMetadata e clk s))"
      by (simp add: refreshMetadata_def split: option.splits)
    show ?thesis
      using assms(2) Inr w 1 2 3
      by (auto simp: collect_def Let_def case_prod_beta s0_def split: option.splits if_splits)
  qed
  then have "\<forall>ev \<in> set evs. rate_unavailable ev"
    by (simp add: list_all_iff)
  then have "rate_unavailable (Metric (consumergroupLagSumRate lagSum g topic rate eta elapsed))"
    using assms(3) by blast
  then show ?thesis by simp
qed

theorem first_cycle_rate_unavailable_witness:
  "start (init_globals 0)
   \<and> collect exporter1 clock1 (init_globals 0)
       = Some (cycle_events exporter1 clock1 (init_globals 0), cycle_state exporter1 clock1 (init_globals 0))
   \<and> Metric (consumergroupLagSumRate 69 ''g1'' ''t1'' (Finite (- 1)) (Finite (- 2)) 0)
       \<in> set (cycle_events exporter1 clock1 (init_globals 0))
   \<and> Finite (- 1) \<noteq> Finite 0 \<and> Finite (- 2) \<noteq> Finite 0"
proof -
  have h1: "start (init_globals 0)"
    by (simp add: init_globals_def)
  have h0: "collect exporter1 clock1 (init_globals 0) \<noteq> None"
    by code_simp
  have h2: "collect exporter1 clock1 (init_globals 0)
       = Some (cycle_events exporter1 clock1 (init_globals 0), cycle_state exporter1 clock1 (init_globals 0))"
    using h0 by (auto simp: cycle_events_def cycle_state_def)
  have h3: "Metric (consumergroupLagSumRate 69 ''g1'' ''t1'' (Finite (- 1)) (Finite (- 2)) 0)
       \<in> set (cycle_events exporter1 clock1 (init_globals 0))"
    by code_simp
  show ?thesis
    using first_cycle_rate_unavailable [OF h1 h2 h3] h1 h2 h3 by simp
qed

section \<open>Failures inside a cycle\<close>

text \<open>The events of a topic are those of its partitions, one after the other.\<close>

lemma partitionsWalk_events:
  "fst (partitionsWalk e topic ps m) = concat (map (\<lambda>p. fst (partitionFacts e topic p)) ps)"
  by (induction ps arbitrary: m) (simp_all add: case_prod_beta)

lemma getTopicMetrics_events:
  "topicFilter e topic \<Longrightarrow>
   fst (getTopicMetrics e topic snap) =
     (case Partitions (client e) topic of
        Inl _ \<Rightarrow> [Errorf ''Cannot get partitions of topic'']
      | Inr ps \<Rightarrow> Metric (topicPartitions (length ps) topic)
                  # concat (map (\<lambda>p. fst (partitionFacts e topic p)) ps))"
  by (simp add: getTopicMetrics_def case_prod_beta partitionsWalk_events split: sum.splits)

text \<open>
  The walk sends what each filtered topic gives, whatever the topics before it did; it
  returns when the pool has a worker or no topic passes the filter, and never returns
  when the pool is empty and some topic passes.
\<close>

lemma sendTopics_events:
  "sendTopics e N topics snap = Some r \<Longrightarrow> topic \<in> set topics \<Longrightarrow> topicFilter e topic \<Longrightarrow>
   set (fst (getTopicMetrics e topic snap')) \<subseteq> set (fst r)"
proof (induction topics arbitrary: snap r)
  case Nil
  then show ?case by simp
next
  case (Cons t rest)
  show ?case
  proof (cases "topicFilter e t")
    case True
    with Cons.prems(1) obtain r2 where
      r2: "sendTopics e N rest (snd (getTopicMetrics e t snap)) = Some r2"
      and r: "fst r = fst (getTopicMetrics e t snap) @ fst r2"
      by (auto simp: case_prod_beta split: if_splits option.splits)
    show ?thesis
    proof (cases "topic = t")
      case True
      have "fst (getTopicMetrics e topic snap') = fst (getTopicMetrics e t snap)"
        using True Cons.prems(3) by (simp add: getTopicMetrics_events)
      then show ?thesis using r by simp
    next
      case False
      then have "topic \<in> set rest" using Cons.prems(2) by simp
      from Cons.IH [OF r2 this Cons.prems(3)] show ?thesis using r by auto
    qed
  next
    case False
    then have "topic \<in> set rest" using Cons.prems(2,3) by auto
    moreover have "sendTopics e N rest snap = Some r" using False Cons.prems(1) by simp
    ultimately show ?thesis using Cons.IH Cons.prems(3) by blast
  qed
qed

lemma sendTopics_returns:
  "1 \<le> N \<or> \<not> list_ex (topicFilter e) topics \<Longrightarrow> \<exists>r. sendTopics e N topics snap = Some r"
proof (induction topics arbitrary: snap)
  case Nil
  then show ?case by simp
next
  case (Cons t rest)
  have rest: "1 \<le> N \<or> \<not> list_ex (topicFilter e) rest"
    using Cons.prems by auto
  show ?case
  proof (cases "topicFilter e t")
    case True
    then have "1 \<le> N" using Cons.prems by auto
    moreover obtain r2 where "sendTopics e N rest (snd (getTopicMetrics e t snap)) = Some r2"
      using Cons.IH [OF rest] by blast
    ultimately show ?thesis using True by (simp add: case_prod_beta)
  next
    case False
    then show ?thesis using Cons.IH [OF rest] by simp
  qed
qed

lemma sendTopics_blocks:
  "N < 1 \<Longrightarrow> list_ex (topicFilter e) topics \<Longrightarrow> sendTopics e N topics snap = None"
  by (induction topics arbitrary: snap) auto

text \<open>
  In the scan, what is due for a group is sent whatever state the groups and brokers
  before it left, and stays among the events as more are added.
\<close>

lemma topicBody_stable:
  "topicConsumed ps \<Longrightarrow> set (topicStable c g topic ps) \<subseteq> set (fst (topicBody c g timeDiff topic ps s))"
  by (auto simp: topicStable_def topicBody_events)

lemma topicLoop_stable:
  "tp \<in> set blocks \<Longrightarrow> topicConsumed (snd tp) \<Longrightarrow>
   set (topicStable c g (fst tp) (snd tp)) \<subseteq> set (fst (topicLoop c g timeDiff blocks s))"
proof (induction blocks arbitrary: s)
  case Nil
  then show ?case by simp
next
  case (Cons b rest)
  show ?case
  proof (cases "tp = b")
    case True
    then show ?thesis
      using topicBody_stable [OF Cons.prems(2), of c g "fst tp" timeDiff s]
      by (auto simp: case_prod_beta)
  next
    case False
    then have "tp \<in> set rest" using Cons.prems(1) by simp
    from Cons.IH [OF this Cons.prems(2)] show ?thesis
      by (auto simp: case_prod_beta)
  qed
qed

lemma group_reported_mono:
  "group_reported e broker tps grp evs \<Longrightarrow> set evs \<subseteq> set evs' \<Longrightarrow>
   group_reported e broker tps grp evs'"
  unfolding group_reported_def list_all_iff
  by (fastforce split: sum.splits)

lemma groupBody_reported:
  assumes "readable e tps grp"
  shows "fst (groupBody e broker timeDiff tps grp s) = Next
         \<and> group_reported e broker tps grp (fst (snd (groupBody e broker timeDiff tps grp s)))"
proof -
  obtain req where req: "fetchRequest e tps grp = Inr req"
    using assms by (auto simp: readable_def split: sum.splits)
  show ?thesis
  proof (cases "FetchOffset broker (GroupId grp) req")
    case (Inl err)
    then show ?thesis using req by (simp add: groupBody_def group_reported_def)
  next
    case (Inr blocks)
    have "\<forall>tp \<in> set blocks. topicConsumed (snd tp) \<longrightarrow>
            set (topicStable (client e) (GroupId grp) (fst tp) (snd tp))
              \<subseteq> set (fst (topicLoop (client e) (GroupId grp) timeDiff blocks s))"
      using topicLoop_stable by blast
    then show ?thesis
      using req Inr
      by (auto simp: groupBody_def group_reported_def case_prod_beta list_all_iff)
  qed
qed

lemma groupLoop_reported:
  "list_all (readable e tps) groups \<Longrightarrow> grp \<in> set groups \<Longrightarrow>
   group_reported e broker tps grp (fst (groupLoop e broker timeDiff tps groups s))"
proof (induction groups arbitrary: s)
  case Nil
  then show ?case by simp
next
  case (Cons g rest)
  have rd: "readable e tps g" and rrest: "list_all (readable e tps) rest"
    using Cons.prems(1) by simp_all
  obtain evs1 s1 where b: "groupBody e broker timeDiff tps g s = (Next, evs1, s1)"
    and rep: "group_reported e broker tps g evs1"
    using groupBody_reported [OF rd, of broker timeDiff s]
    by (cases "groupBody e broker timeDiff tps g s") auto
  have eq: "fst (groupLoop e broker timeDiff tps (g # rest) s)
              = evs1 @ fst (groupLoop e broker timeDiff tps rest s1)"
    using b by (simp add: case_prod_beta)
  show ?case
  proof (cases "grp = g")
    case True
    from group_reported_mono [OF rep, of "fst (groupLoop e broker timeDiff tps (g # rest) s)"]
    show ?thesis using True eq by simp
  next
    case False
    then have "grp \<in> set rest" using Cons.prems(2) by simp
    from group_reported_mono [OF Cons.IH [OF rrest this, of s1],
        of "fst (groupLoop e broker timeDiff tps (g # rest) s)"]
    show ?thesis using eq by simp
  qed
qed

lemma getConsumerGroupMetrics_reported:
  assumes "described e broker = Some descr" and "list_all (readable e tps) descr"
    and "grp \<in> set descr"
  shows "group_reported e broker tps grp (fst (getConsumerGroupMetrics e clk tps broker s))"
  using assms groupLoop_reported [OF assms(2) assms(3)]
  by (auto simp: described_def getConsumerGroupMetrics_def Let_def split: if_splits sum.splits)

lemma brokerLoop_reported:
  "broker \<in> set brokers \<Longrightarrow> described e broker = Some descr \<Longrightarrow>
   list_all (readable e tps) descr \<Longrightarrow> grp \<in> set descr \<Longrightarrow>
   group_reported e broker tps grp (fst (brokerLoop e clk tps brokers s))"
proof (induction brokers arbitrary: s)
  case Nil
  then show ?case by simp
next
  case (Cons b rest)
  have eq: "fst (brokerLoop e clk tps (b # rest) s)
              = fst (getConsumerGroupMetrics e clk tps b s)
                @ fst (brokerLoop e clk tps rest (snd (getConsumerGroupMetrics e clk tps b s)))"
    by (simp add: case_prod_beta)
  show ?case
  proof (cases "broker = b")
    case True
    have "group_reported e broker tps grp (fst (getConsumerGroupMetrics e clk tps b s))"
      using True getConsumerGroupMetrics_reported [OF Cons.prems(2,3,4)] by simp
    from group_reported_mono [OF this, of "fst (brokerLoop e clk tps (b # rest) s)"]
    show ?thesis using eq by simp
  next
    case False
    then have "broker \<in> set rest" using Cons.prems(1) by simp
    from group_reported_mono [OF Cons.IH [OF this Cons.prems(2,3,4)],
        of "snd (getConsumerGroupMetrics e clk tps b s)" "fst (brokerLoop e clk tps (b # rest) s)"]
    show ?thesis using eq by simp
  qed
qed


lemma collect_topics_failure:
  "Topics (client e) = Inl err \<Longrightarrow>
   collect e clk s =
     Some (Metric (clusterBrokers (length (Brokers (client e)))) # fst (refreshMetadata e clk s)
             @ [Errorf ''Cannot get topics''],
           snd (refreshMetadata e clk s))"
  by (simp add: collect_def Let_def)

lemma collect_returns:
  assumes "Topics (client e) = Inr topics" and "topicWalk e topics = Some w"
  shows "collect e clk s =
     Some (Metric (clusterBrokers (length (Brokers (client e)))) # fst (refreshMetadata e clk s)
             @ fst w
             @ (if Brokers (client e) = []
                then [Errorf ''No valid broker, cannot get consumer group metrics'']
                else fst (brokerLoop e clk (topicsPartitions (snd w)) (Brokers (client e))
                            (snd (refreshMetadata e clk s)))),
           (if Brokers (client e) = [] then snd (refreshMetadata e clk s)
            else snd (brokerLoop e clk (topicsPartitions (snd w)) (Brokers (client e))
                            (snd (refreshMetadata e clk s))))
           \<lparr>lastScrape := endUnix clk, start := False\<rparr>)"
  using assms by (simp add: collect_def Let_def case_prod_beta)

lemma walk_topic_reported:
  assumes "topicWalk e topics = Some w" and "topic \<in> set topics" and "topicFilter e topic"
  shows "case Partitions (client e) topic of
           Inl _ \<Rightarrow> Errorf ''Cannot get partitions of topic'' \<in> set (fst w)
         | Inr ps \<Rightarrow> Metric (topicPartitions (length ps) topic) \<in> set (fst w)
                    \<and> (\<forall>part \<in> set ps. set (fst (partitionFacts e topic part)) \<subseteq> set (fst w))"
proof -
  have "set (fst (getTopicMetrics e topic \<lparr>offset = Map.empty, topicsPartitions = []\<rparr>)) \<subseteq> set (fst w)"
    using assms sendTopics_events by (simp add: topicWalk_def)
  then show ?thesis
    by (auto simp: getTopicMetrics_events [OF assms(3)] split: sum.splits)
qed

text \<open>
  Claim C3, as amended. A cycle whose topic list cannot be fetched ends at once: it has
  sent the broker count and nothing else, and the process-wide state is as the metadata
  refresh left it. A cycle whose topic list is fetched, and whose worker pool is not
  empty unless no topic passes the filter, runs to its end whatever else fails, a failed
  metadata refresh included: \<open>start\<close> is cleared and \<open>lastScrape\<close> set. Of every
  filtered topic, either the log line of its failed partition list or its partition
  count and, for each partition, each fact's sample or log line and both derived samples
  are among its events. With no brokers the events are the broker count, what the
  refresh logged, the events of the walk and one log line. And for every broker that
  describes its groups, when every request can be built, every described group has its
  member count among the events, with the log line when its offsets could not be
  fetched and the partition samples and offset sum of each consumed topic otherwise.
\<close>

theorem cycle_failure_isolation:
  "case Topics (client e) of
     Inl _ \<Rightarrow>
       collect e clk s =
         Some (Metric (clusterBrokers (length (Brokers (client e)))) # fst (refreshMetadata e clk s)
                 @ [Errorf ''Cannot get topics''],
               snd (refreshMetadata e clk s))
   | Inr topics \<Rightarrow>
       (1 \<le> minx (int (length topics) div 2) (topicWorkers e) \<or> \<not> list_ex (topicFilter e) topics) \<longrightarrow>
       collect e clk s \<noteq> None
       \<and> \<not> start (cycle_state e clk s) \<and> lastScrape (cycle_state e clk s) = endUnix clk
       \<and> set (fst (refreshMetadata e clk s)) \<subseteq> set (cycle_events e clk s)
       \<and> (\<forall>topic \<in> set topics. topicFilter e topic \<longrightarrow>
            (case Partitions (client e) topic of
               Inl _ \<Rightarrow> Errorf ''Cannot get partitions of topic'' \<in> set (cycle_events e clk s)
             | Inr ps \<Rightarrow>
                 Metric (topicPartitions (length ps) topic) \<in> set (cycle_events e clk s)
                 \<and> (\<forall>part \<in> set ps.
                      set (fst (partitionFacts e topic part)) \<subseteq> set (cycle_events e clk s))))
       \<and> (Brokers (client e) = [] \<longrightarrow>
            cycle_events e clk s =
              Metric (clusterBrokers 0) # fst (refreshMetadata e clk s) @ walkEvents e topics
              @ [Errorf ''No valid broker, cannot get consumer group metrics''])
       \<and> (\<forall>broker \<in> set (Brokers (client e)). \<forall>descr.
            described e broker = Some descr \<longrightarrow>
            list_all (readable e (walkedPartitions e topics)) descr \<longrightarrow>
            (\<forall>grp \<in> set descr.
               group_reported e broker (walkedPartitions e topics) grp (cycle_events e clk s)))"
proof (cases "Topics (client e)")
  case (Inl err)
  then show ?thesis by (simp add: collect_topics_failure)
next
  case (Inr topics)
  have "collect e clk s \<noteq> None
       \<and> \<not> start (cycle_state e clk s) \<and> lastScrape (cycle_state e clk s) = endUnix clk
       \<and> set (fst (refreshMetadata e clk s)) \<subseteq> set (cycle_events e clk s)
       \<and> (\<forall>topic \<in> set topics. topicFilter e topic \<longrightarrow>
            (case Partitions (client e) topic of
               Inl _ \<Rightarrow> Errorf ''Cannot get partitions of topic'' \<in> set (cycle_events e clk s)
             | Inr ps \<Rightarrow>
                 Metric (topicPartitions (length ps) topic) \<in> set (cycle_events e clk s)
                 \<and> (\<forall>part \<in> set ps.
                      set (fst (partitionFacts e topic part)) \<subseteq> set (cycle_events e clk s))))
       \<and> (Brokers (client e) = [] \<longrightarrow>
            cycle_events e clk s =
              Metric (clusterBrokers 0) # fst (refreshMetadata e clk s) @ walkEvents e topics
              @ [Errorf ''No valid broker, cannot get consumer group metrics''])
       \<and> (\<forall>broker \<in> set (Brokers (client e)). \<forall>descr.
            described e broker = Some descr \<longrightarrow>
            list_all (readable e (walkedPartitions e topics)) descr \<longrightarrow>
            (\<forall>grp \<in> set descr.
               group_reported e broker (walkedPartitions e topics) grp (cycle_events e clk s)))"
    if pool: "1 \<le> minx (int (length topics) div 2) (topicWorkers e) \<or> \<not> list_ex (topicFilter e) topics"
  proof -
    have "\<exists>w. topicWalk e topics = Some w"
      unfolding topicWalk_def by (rule sendTopics_returns [OF pool])
    then obtain w where w: "topicWalk e topics = Some w" ..
    define s0 where "s0 = snd (refreshMetadata e clk s)"
    define evs2 where "evs2 = (if Brokers (client e) = []
                then [Errorf ''No valid broker, cannot get consumer group metrics'']
                else fst (brokerLoop e clk (topicsPartitions (snd w)) (Brokers (client e)) s0))"
    define evs where "evs = Metric (clusterBrokers (length (Brokers (client e))))
                # fst (refreshMetadata e clk s) @ fst w @ evs2"
    define s' where "s' = (if Brokers (client e) = [] then s0
            else snd (brokerLoop e clk (topicsPartitions (snd w)) (Brokers (client e)) s0))
           \<lparr>lastScrape := endUnix clk, start := False\<rparr>"
    have c: "collect e clk s = Some (evs, s')"
      using collect_returns [OF Inr w, of clk s] by (simp add: evs_def evs2_def s'_def s0_def)
    have ev: "cycle_events e clk s = evs"
      using c by (simp add: cycle_events_def)
    have cs: "cycle_state e clk s = s'"
      using c by (simp add: cycle_state_def)
    have wp: "walkedPartitions e topics = topicsPartitions (snd w)"
      using w by (simp add: walkedPartitions_def)
    have st: "\<not> start s' \<and> lastScrape s' = endUnix clk"
      by (simp add: s'_def)
    have rf: "set (fst (refreshMetadata e clk s)) \<subseteq> set evs"
      by (auto simp: evs_def)
    have wsub: "set (fst w) \<subseteq> set evs"
      by (auto simp: evs_def)
    have tp: "\<forall>topic \<in> set topics. topicFilter e topic \<longrightarrow>
               (case Partitions (client e) topic of
                  Inl _ \<Rightarrow> Errorf ''Cannot get partitions of topic'' \<in> set evs
                | Inr ps \<Rightarrow>
                    Metric (topicPartitions (length ps) topic) \<in> set evs
                    \<and> (\<forall>part \<in> set ps. set (fst (partitionFacts e topic part)) \<subseteq> set evs))"
    proof (intro ballI impI)
      fix topic
      assume "topic \<in> set topics" and "topicFilter e topic"
      from walk_topic_reported [OF w this] wsub
      show "case Partitions (client e) topic of
                  Inl _ \<Rightarrow> Errorf ''Cannot get partitions of topic'' \<in> set evs
                | Inr ps \<Rightarrow>
                    Metric (topicPartitions (length ps) topic) \<in> set evs
                    \<and> (\<forall>part \<in> set ps. set (fst (partitionFacts e topic part)) \<subseteq> set evs)"
        by (auto split: sum.splits)
    qed
    have nb: "Brokers (client e) = [] \<longrightarrow>
            evs = Metric (clusterBrokers 0) # fst (refreshMetadata e clk s) @ walkEvents e topics
              @ [Errorf ''No valid broker, cannot get consumer group metrics'']"
      using w by (simp add: evs_def evs2_def walkEvents_def)
    have gr: "\<forall>broker \<in> set (Brokers (client e)). \<forall>descr.
               described e broker = Some descr \<longrightarrow>
               list_all (readable e (topicsPartitions (snd w))) descr \<longrightarrow>
               (\<forall>grp \<in> set descr. group_reported e broker (topicsPartitions (snd w)) grp evs)"
    proof (intro ballI allI impI)
      fix broker descr grp
      assume b: "broker \<in> set (Brokers (client e))"
        and d: "described e broker = Some descr"
        and r: "list_all (readable e (topicsPartitions (snd w))) descr"
        and g: "grp \<in> set descr"
      have ne: "Brokers (client e) \<noteq> []" using b by auto
      have "group_reported e broker (topicsPartitions (snd w)) grp evs2"
        using brokerLoop_reported [OF b d r g, of clk s0] ne by (simp add: evs2_def)
      from group_reported_mono [OF this, of evs]
      show "group_reported e broker (topicsPartitions (snd w)) grp evs"
        by (auto simp: evs_def)
    qed
    show ?thesis
      unfolding ev cs wp using c st rf tp nb gr by simp
  qed
  then show ?thesis using Inr by simp
qed

lemmas cluster_defs =
  fetch_fail_exporter_def exporter1_def client1_def broker1_def group1_def member1_def
  getOffset1_def t1_blocks_def blk_def clock1_def init_globals_def

theorem cycle_failure_isolation_witness:
  "Topics (client fetch_fail_exporter) = Inr [''t1'', ''t2'']
   \<and> 1 \<le> minx (int (length [''t1'', ''t2'']) div 2) (topicWorkers fetch_fail_exporter)
   \<and> \<not> start (cycle_state fetch_fail_exporter clock1 (init_globals 0))
   \<and> Errorf ''Cannot refresh topics, using cached data''
       \<in> set (cycle_events fetch_fail_exporter clock1 (init_globals 0))
   \<and> Errorf ''Cannot get current offset of topic''
       \<in> set (fst (partitionFacts fetch_fail_exporter ''t1'' 1))
   \<and> Metric (topicOldestOffset 0 ''t1'' 1)
       \<in> set (cycle_events fetch_fail_exporter clock1 (init_globals 0))
   \<and> Metric (consumergroupMembers 1 ''g0'')
       \<in> set (cycle_events fetch_fail_exporter clock1 (init_globals 0))
   \<and> Errorf ''Cannot get offset of group''
       \<in> set (cycle_events fetch_fail_exporter clock1 (init_globals 0))
   \<and> Metric (consumergroupMembers 1 ''g1'')
       \<in> set (cycle_events fetch_fail_exporter clock1 (init_globals 0))
   \<and> Topics (client no_topics_exporter) = Inl (ErrOther ''client closed'')
   \<and> collect no_topics_exporter clock1 (init_globals 0)
       = Some ([Metric (clusterBrokers 1), Errorf ''Cannot get topics''],
               (init_globals 0)\<lparr>nextMetadataRefresh := 1030\<rparr>)"
proof -
  let ?e = fetch_fail_exporter
  let ?s = "init_globals 0"
  let ?evs = "cycle_events ?e clock1 ?s"
  let ?tps = "walkedPartitions ?e [''t1'', ''t2'']"
  have h1: "Topics (client ?e) = Inr [''t1'', ''t2'']"
    by (simp add: cluster_defs)
  have h2: "1 \<le> minx (int (length [''t1'', ''t2'']) div 2) (topicWorkers ?e)"
    by (simp add: minx_def cluster_defs)
  note inst = cycle_failure_isolation [of ?e clock1 ?s, unfolded h1 sum.case]
  note all = mp [OF inst disjI1 [OF h2]]
  have st: "\<not> start (cycle_state ?e clock1 ?s)"
    using all by blast
  have rf: "set (fst (refreshMetadata ?e clock1 ?s)) \<subseteq> set ?evs"
    using all by blast
  have tp: "\<forall>topic \<in> set [''t1'', ''t2'']. topicFilter ?e topic \<longrightarrow>
               (case Partitions (client ?e) topic of
                  Inl _ \<Rightarrow> Errorf ''Cannot get partitions of topic'' \<in> set ?evs
                | Inr ps \<Rightarrow>
                    Metric (topicPartitions (length ps) topic) \<in> set ?evs
                    \<and> (\<forall>part \<in> set ps. set (fst (partitionFacts ?e topic part)) \<subseteq> set ?evs))"
    using all by blast
  have gr: "\<forall>broker \<in> set (Brokers (client ?e)). \<forall>descr.
               described ?e broker = Some descr \<longrightarrow>
               list_all (readable ?e ?tps) descr \<longrightarrow>
               (\<forall>grp \<in> set descr. group_reported ?e broker ?tps grp ?evs)"
    using all by blast
  have r1: "Errorf ''Cannot refresh topics, using cached data'' \<in> set ?evs"
  proof -
    have "Errorf ''Cannot refresh topics, using cached data''
            \<in> set (fst (refreshMetadata ?e clock1 ?s))"
      by (simp add: refreshMetadata_def cluster_defs)
    then show ?thesis using rf by blast
  qed
  have p1: "topicFilter ?e ''t1''"
    by (simp add: cluster_defs)
  have p2: "Partitions (client ?e) ''t1'' = Inr [0, 1, 2]"
    by (simp add: cluster_defs)
  have p3: "set (fst (partitionFacts ?e ''t1'' 1)) \<subseteq> set ?evs"
    using tp p1 p2 by simp
  have p4: "Errorf ''Cannot get current offset of topic'' \<in> set (fst (partitionFacts ?e ''t1'' 1))"
    by code_simp
  have p5: "Metric (topicOldestOffset 0 ''t1'' 1) \<in> set (fst (partitionFacts ?e ''t1'' 1))"
    by code_simp
  define g0 where "g0 = \<lparr>GroupId = ''g0'', Members = [member1]\<rparr>"
  define b where "b = broker1\<lparr>ListGroups := Inr [''g0'', ''g1''],
            DescribeGroups := (\<lambda>ids. Inr [g0, group1]),
            FetchOffset := (\<lambda>g req.
              if g = ''g0'' then Inl (ErrOther ''timeout'') else Inr [(''t1'', t1_blocks)])\<rparr>"
  have b1: "b \<in> set (Brokers (client ?e))"
    by (simp add: b_def g0_def fetch_fail_exporter_def)
  have b2: "described ?e b = Some [g0, group1]"
    by (simp add: described_def b_def broker1_def)
  have b3: "list_all (readable ?e ?tps) [g0, group1]"
    by (simp add: readable_def fetchRequest_def g0_def group1_def member1_def
          fetch_fail_exporter_def exporter1_def)
  have g0r: "group_reported ?e b ?tps g0 ?evs"
    and g1r: "group_reported ?e b ?tps group1 ?evs"
    using gr b1 b2 b3 by auto
  have m0: "Metric (consumergroupMembers 1 ''g0'') \<in> set ?evs"
    using g0r by (simp add: group_reported_def g0_def)
  have m1: "Metric (consumergroupMembers 1 ''g1'') \<in> set ?evs"
    using g1r by (simp add: group_reported_def group1_def)
  have f0: "Errorf ''Cannot get offset of group'' \<in> set ?evs"
    using g0r
    by (simp add: group_reported_def g0_def b_def fetchRequest_def member1_def
          fetch_fail_exporter_def exporter1_def)
  have n1: "Topics (client no_topics_exporter) = Inl (ErrOther ''client closed'')"
    by (simp add: no_topics_exporter_def)
  have n2: "collect no_topics_exporter clock1 (init_globals 0)
       = Some ([Metric (clusterBrokers 1), Errorf ''Cannot get topics''],
               (init_globals 0)\<lparr>nextMetadataRefresh := 1030\<rparr>)"
    using cycle_failure_isolation [of no_topics_exporter clock1 "init_globals 0", unfolded n1 sum.case]
    by (simp add: refreshMetadata_def no_topics_exporter_def exporter1_def client1_def clock1_def
          init_globals_def)
  show ?thesis
    using h1 h2 st r1 p3 p4 p5 m0 m1 f0 n1 n2 by auto
qed

end
